theory Spec2Isabelle
  imports Complex_Main
begin

section \<open>Python values, exceptions and outcomes\<close>

text \<open>
  The exceptions the two modules can raise.  \<open>NameError n\<close> is the failure of looking
  up the unbound global name \<open>n\<close>; \<open>LibError c\<close> stands for any exception raised inside
  an external library call (the reader, the surface extraction, the colour mapping),
  told apart by an opaque code.
\<close>

datatype exn =
    NameError string
  | UnboundLocalError string
  | UserError string string
  | FileExistsError
  | PermissionError
  | FileNotFoundError
  | ValueError
  | KeyError string
  | TypeError
  | IndexError
  | AxisError
  | AttributeError
  | NoSuchNodeError
  | TraitError
  | LibError nat

text \<open>
  An n-dimensional numpy array: its shape and its elements in row-major (C) order.
\<close>

record 'a ndarray =
  shape :: "nat list"
  elems :: "'a list"

definition ndim :: "'a ndarray \<Rightarrow> nat" where
  "ndim a = length (shape a)"

definition wf_array :: "'a ndarray \<Rightarrow> bool" where
  "wf_array a = (length (elems a) = prod_list (shape a))"

text \<open>
  The values a keyword argument of \<open>create_yaml_file\<close> can hold.  Numeric data are
  integers; floating-point values are left out of the model.
\<close>

datatype pyval =
    PStr string
  | PTuple "pyval list"
  | PArray "int ndarray"
  | PList "pyval list"
  | PInt int
  | PBool bool
  | PNone

section \<open>Text produced by \<open>str\<close> and \<open>repr\<close>\<close>

definition digit_char :: "nat \<Rightarrow> char" where
  "digit_char n = ''0123456789abcdef'' ! n"

function show_nat :: "nat \<Rightarrow> string" where
  "show_nat n = (if n < 10 then [digit_char n] else show_nat (n div 10) @ [digit_char (n mod 10)])"
  by pat_completeness auto
termination
  by (relation "measure (\<lambda>n. n)") auto

definition show_int :: "int \<Rightarrow> string" where
  "show_int i = (if i < 0 then CHR ''-'' # show_nat (nat (- i)) else show_nat (nat i))"

fun join :: "string \<Rightarrow> string list \<Rightarrow> string" where
  "join sep [] = []"
| "join sep [x] = x"
| "join sep (x # y # ys) = x @ sep @ join sep (y # ys)"

text \<open>
  \<open>repr\<close> of a \<open>str\<close>, for code points below 256: double quotes are chosen only when
  the text holds a single quote and no double quote; the backslash and the chosen quote
  are escaped, tab, newline and carriage return get their letter, every other
  non-printable code point is written \<open>\xhh\<close>.
\<close>

definition printable :: "char \<Rightarrow> bool" where
  "printable c = (let n = of_char c :: nat in
     (32 \<le> n \<and> n < 127) \<or> (161 \<le> n \<and> n \<noteq> 173))"

definition escape_char :: "char \<Rightarrow> char \<Rightarrow> string" where
  "escape_char q c =
     (if c = q \<or> c = CHR 0x5C then [CHR 0x5C, c]
      else if c = CHR 0x09 then [CHR 0x5C, CHR ''t'']
      else if c = CHR 0x0A then [CHR 0x5C, CHR ''n'']
      else if c = CHR 0x0D then [CHR 0x5C, CHR ''r'']
      else if printable c then [c]
      else [CHR 0x5C, CHR ''x'', digit_char (of_char c div 16), digit_char (of_char c mod 16)])"

definition repr_str :: "string \<Rightarrow> string" where
  "repr_str s =
     (let q = (if CHR 0x27 \<in> set s \<and> CHR 0x22 \<notin> set s then CHR 0x22 else CHR 0x27)
      in q # concat (map (escape_char q) s) @ [q])"

text \<open>
  \<open>repr\<close> of an \<open>int64\<close> numpy array with numpy's default print options (line width
  75, summarisation threshold 1000, three edge items), after numpy's \<open>_formatArray\<close> and
  \<open>_extendLine\<close>.  Every element is padded on the left to the width of the widest one
  shown.  A row is written word by word: a word that would pass the element width of its
  depth starts a new line, behind the hanging indent, unless the line holds nothing but
  the indent.  Blocks of the outer axes are separated by a comma, one newline per
  remaining axis and the hanging indent.  An array of more than 1000 elements is
  summarised: along every axis longer than six only the first three and the last three
  entries are shown, around \<open>...\<close>.  An empty array is printed with its dtype, and with
  its shape unless that is \<open>(0,)\<close>.
\<close>

definition pad_left :: "nat \<Rightarrow> string \<Rightarrow> string" where
  "pad_left w s = replicate (w - length s) CHR '' '' @ s"

fun chunks :: "nat \<Rightarrow> nat \<Rightarrow> 'a list \<Rightarrow> 'a list list" where
  "chunks 0 sz xs = []"
| "chunks (Suc n) sz xs = take sz xs # chunks n sz (drop sz xs)"

definition rstrip :: "string \<Rightarrow> string" where
  "rstrip s = rev (dropWhile (\<lambda>c. c = CHR '' '') (rev s))"

definition extend_line :: "nat \<Rightarrow> string \<Rightarrow> string \<times> string \<Rightarrow> string \<Rightarrow> string \<times> string" where
  "extend_line line_width next_line_prefix sl word =
     (case sl of (s, line) \<Rightarrow>
        if length line + length word > line_width \<and> length line > length next_line_prefix
        then (s @ rstrip line @ [CHR 0x0A], next_line_prefix @ word)
        else (s, line @ word))"

fun row_lines :: "nat \<Rightarrow> string \<Rightarrow> string \<times> string \<Rightarrow> string list \<Rightarrow> string" where
  "row_lines elem_width hanging_indent sl [] = fst sl @ snd sl"
| "row_lines elem_width hanging_indent sl [word] =
     (case extend_line elem_width hanging_indent sl word of (s, line) \<Rightarrow> s @ line)"
| "row_lines elem_width hanging_indent sl (word # ws) =
     (case extend_line elem_width hanging_indent sl word of
        (s, line) \<Rightarrow> row_lines elem_width hanging_indent (s, line @ '', '') ws)"

definition edge_items :: "bool \<Rightarrow> nat \<Rightarrow> 'a list \<Rightarrow> 'a list" where
  "edge_items summary a_len xs = (if summary \<and> 6 < a_len then take 3 xs @ drop (a_len - 3) xs else xs)"

definition with_summary :: "bool \<Rightarrow> nat \<Rightarrow> string list \<Rightarrow> string list" where
  "with_summary summary a_len xs =
     (if summary \<and> 6 < a_len then take 3 xs @ [''...''] @ drop (a_len - 3) xs else xs)"

fun leading_trailing :: "bool \<Rightarrow> nat list \<Rightarrow> 'a list \<Rightarrow> 'a list" where
  "leading_trailing summary [] cells = take 1 cells"
| "leading_trailing summary (n # rest) cells =
     concat (map (leading_trailing summary rest)
                 (edge_items summary n (chunks n (prod_list rest) cells)))"

fun format_array :: "bool \<Rightarrow> nat \<Rightarrow> nat list \<Rightarrow> string list \<Rightarrow> string" where
  "format_array summary depth [] cells = (case cells of [] \<Rightarrow> [] | c # _ \<Rightarrow> c)"
| "format_array summary depth [n] cells =
     (let hanging_indent = replicate (7 + depth) CHR '' '' in
      ''['' @ drop (length hanging_indent)
                (row_lines (73 - depth) hanging_indent ([], hanging_indent)
                   (with_summary summary n (take n cells))) @ '']'')"
| "format_array summary depth (n # m # rest) cells =
     (let hanging_indent = replicate (7 + depth) CHR '' '';
          line_sep = '','' @ replicate (Suc (length rest)) CHR 0x0A
      in ''['' @ join (line_sep @ hanging_indent)
                  (with_summary summary n
                     (map (format_array summary (Suc depth) (m # rest))
                          (chunks n (prod_list (m # rest)) cells))) @ '']'')"

definition repr_shape :: "nat list \<Rightarrow> string" where
  "repr_shape sh = ''('' @ join '', '' (map show_nat sh) @ (if length sh = 1 then '','' else []) @ '')''"

definition np_repr :: "int ndarray \<Rightarrow> string" where
  "np_repr a =
     (if prod_list (shape a) = 0 then
        (if shape a = [0] then ''array([], dtype=int64)''
         else ''array([], shape='' @ repr_shape (shape a) @ '', dtype=int64)'')
      else
        (let summary = (1000 < prod_list (shape a));
             cells = map show_int (elems a);
             w = fold max (map length (leading_trailing summary (shape a) cells)) 0
         in ''array('' @ format_array summary 0 (shape a) (map (pad_left w) cells) @ '')''))"

fun py_repr :: "pyval \<Rightarrow> string" where
  "py_repr (PStr s) = repr_str s"
| "py_repr (PTuple xs) =
     (case xs of [] \<Rightarrow> ''()''
      | [x] \<Rightarrow> ''('' @ py_repr x @ '',)''
      | _ \<Rightarrow> ''('' @ join '', '' (map py_repr xs) @ '')'')"
| "py_repr (PArray a) = np_repr a"
| "py_repr (PList xs) = ''['' @ join '', '' (map py_repr xs) @ '']''"
| "py_repr (PInt i) = show_int i"
| "py_repr (PBool b) = (if b then ''True'' else ''False'')"
| "py_repr PNone = ''None''"

text \<open>
  Iterating over a numpy array (\<open>list(v)\<close>) walks its first axis: the items of a
  one-dimensional array are its scalars (whose text is the number's, as numpy 1.x prints
  them), the items of a higher-dimensional one are its sub-arrays; a 0-d array cannot
  be iterated.
\<close>

definition list_of_array :: "int ndarray \<Rightarrow> exn + pyval list" where
  "list_of_array a =
     (case shape a of
        [] \<Rightarrow> Inl TypeError
      | n # rest \<Rightarrow>
          if rest = [] then Inr (map PInt (take n (elems a)))
          else Inr (map (\<lambda>c. PArray \<lparr>shape = rest, elems = c\<rparr>)
                        (chunks n (prod_list rest) (elems a))))"

section \<open>The configuration writer \<open>create_yaml_file\<close>\<close>

text \<open>
  One pass of the loop over \<open>kwargs.items()\<close>: the \<open>isinstance\<close> chain in the
  source's order (\<open>str\<close>, \<open>tuple\<close>, \<open>np.ndarray\<close>, \<open>list\<close>, anything else), each
  branch an f-string.  An f-string formats a list with \<open>str\<close>, which is the list's
  \<open>repr\<close>.
\<close>

definition yaml_line :: "string \<Rightarrow> pyval \<Rightarrow> exn + string" where
  "yaml_line k v =
     (case v of
        PStr s \<Rightarrow> Inr (k @ '': '' @ [CHR 0x22] @ s @ [CHR 0x22])
      | PTuple xs \<Rightarrow>
          if xs \<noteq> [] then Inr (k @ '': '' @ py_repr (PList xs)) else Inr (k @ '': None'')
      | PArray a \<Rightarrow>
          (case list_of_array a of
             Inl e \<Rightarrow> Inl e
           | Inr xs \<Rightarrow> Inr (k @ '': '' @ py_repr (PList xs)))
      | PList xs \<Rightarrow>
          if xs \<noteq> [] then Inr (k @ '': '' @ py_repr (PList xs)) else Inr (k @ '': None'')
      | PInt i \<Rightarrow> Inr (k @ '': '' @ py_repr (PInt i))
      | PBool b \<Rightarrow> Inr (k @ '': '' @ py_repr (PBool b))
      | PNone \<Rightarrow> Inr (k @ '': '' @ py_repr PNone))"

fun config_lines :: "string list \<Rightarrow> (string \<times> pyval) list \<Rightarrow> exn + string list" where
  "config_lines config_file [] = Inr config_file"
| "config_lines config_file ((k, v) # kwargs) =
     (case yaml_line k v of
        Inl e \<Rightarrow> Inl e
      | Inr l \<Rightarrow> config_lines (config_file @ [l]) kwargs)"

text \<open>String methods and \<open>os.path.basename\<close> (POSIX).\<close>

definition basename :: "string \<Rightarrow> string" where
  "basename p = rev (takeWhile (\<lambda>c. c \<noteq> CHR ''/'') (rev p))"

definition py_strip :: "string \<Rightarrow> string \<Rightarrow> string" where
  "py_strip chars s =
     rev (dropWhile (\<lambda>c. c \<in> set chars) (rev (dropWhile (\<lambda>c. c \<in> set chars) s)))"

fun split_on :: "char \<Rightarrow> string \<Rightarrow> string list" where
  "split_on c [] = [[]]"
| "split_on c (x # xs) =
     (if x = c then [] # split_on c xs
      else (case split_on c xs of [] \<Rightarrow> [[x]] | w # ws \<Rightarrow> (x # w) # ws))"

definition endswith :: "string \<Rightarrow> string \<Rightarrow> bool" where
  "endswith s suf = (length suf \<le> length s \<and> drop (length s - length suf) s = suf)"

text \<open>
  The operating system is a parameter: a world \<open>'w\<close> with the three calls the writer
  makes.  \<open>files\<close> keeps the content of what has been written through
  \<open>open(fname, "w")\<close>.
\<close>

record 'w os_api =
  isdir :: "'w \<Rightarrow> string \<Rightarrow> bool"
  mkdir :: "'w \<Rightarrow> string \<Rightarrow> exn + 'w"
  open_w :: "'w \<Rightarrow> string \<Rightarrow> exn + 'w"

record 'w sys =
  world :: "'w"
  files :: "string \<rightharpoonup> string"

text \<open>
  The directory loop: every prefix of the path is created in turn, \<open>FileExistsError\<close>
  and \<open>PermissionError\<close> are swallowed, any other exception leaves the function.
\<close>

fun mkdirs :: "'w os_api \<Rightarrow> 'w \<Rightarrow> string \<Rightarrow> string list \<Rightarrow> 'w \<times> exn option" where
  "mkdirs os w full_path [] = (w, None)"
| "mkdirs os w full_path (d # ds) =
     (let full_path' = full_path @ d @ ''/'' in
      case mkdir os w full_path' of
        Inr w' \<Rightarrow> mkdirs os w' full_path' ds
      | Inl e \<Rightarrow>
          if e = FileExistsError \<or> e = PermissionError then mkdirs os w full_path' ds
          else (w, Some e))"

text \<open>
  The global names of module \<open>control_preprocess\<close>: those bound by its \<open>import\<close> and
  \<open>def\<close> statements, and behind them the builtins.  A name in neither raises
  \<open>NameError\<close> where it is evaluated.
\<close>

definition module_globals :: "string list" where
  "module_globals =
     [''np'', ''pd'', ''plt'', ''glob'', ''os'', ''operator_lib'', ''datetime'', ''tb'',
      ''h5py'', ''shutil'', ''fftshift'', ''center_of_mass'', ''quote'', ''display'',
      ''CDI'', ''params'', ''smaller_primes'', ''pynx_import'', ''gwaihir'', ''rd'',
      ''bin_data'', ''create_yaml_file'', ''extract_metadata'', ''initialize_preprocessing'']"

definition builtin_names :: "string list" where
  "builtin_names =
     [''isinstance'', ''str'', ''tuple'', ''list'', ''len'', ''open'', ''print'',
      ''getattr'', ''setattr'', ''sorted'', ''int'', ''float'', ''bool'', ''dict'',
      ''BaseException'', ''Exception'', ''ArithmeticError'', ''AssertionError'',
      ''AttributeError'', ''BlockingIOError'', ''BrokenPipeError'', ''BufferError'',
      ''ChildProcessError'', ''ConnectionAbortedError'', ''ConnectionError'',
      ''ConnectionRefusedError'', ''ConnectionResetError'', ''EOFError'',
      ''EnvironmentError'', ''FileExistsError'', ''FileNotFoundError'',
      ''FloatingPointError'', ''GeneratorExit'', ''IOError'', ''ImportError'',
      ''IndentationError'', ''IndexError'', ''InterruptedError'', ''IsADirectoryError'',
      ''KeyError'', ''KeyboardInterrupt'', ''LookupError'', ''MemoryError'',
      ''ModuleNotFoundError'', ''NameError'', ''NotADirectoryError'',
      ''NotImplementedError'', ''OSError'', ''OverflowError'', ''PermissionError'',
      ''ProcessLookupError'', ''RecursionError'', ''ReferenceError'', ''RuntimeError'',
      ''StopAsyncIteration'', ''StopIteration'', ''SyntaxError'', ''SystemError'',
      ''SystemExit'', ''TabError'', ''TimeoutError'', ''TypeError'',
      ''UnboundLocalError'', ''UnicodeDecodeError'', ''UnicodeEncodeError'',
      ''UnicodeError'', ''UnicodeTranslateError'', ''ValueError'', ''ZeroDivisionError'']"

definition resolve_global :: "string \<Rightarrow> exn + string" where
  "resolve_global n =
     (if n \<in> set module_globals \<or> n \<in> set builtin_names then Inr n else Inl (NameError n))"

text \<open>\<open>raise C(msg)\<close>: the name \<open>C\<close> is evaluated first.\<close>

definition raise_named :: "string \<Rightarrow> string \<Rightarrow> exn" where
  "raise_named c msg = (case resolve_global c of Inl e \<Rightarrow> e | Inr cls \<Rightarrow> UserError cls msg)"

definition create_yaml_file ::
  "'w os_api \<Rightarrow> 'w sys \<Rightarrow> string \<Rightarrow> (string \<times> pyval) list \<Rightarrow> 'w sys \<times> exn option" where
  "create_yaml_file os s fname kwargs =
     (case config_lines [] kwargs of
        Inl e \<Rightarrow> (s, Some e)
      | Inr config_file \<Rightarrow>
          (let file = basename fname;
               directory = py_strip file fname;
               (w1, err) = (if \<not> isdir os (world s) directory
                            then mkdirs os (world s) [] (split_on CHR ''/'' directory)
                            else (world s, None))
           in case err of
                Some e \<Rightarrow> (s\<lparr>world := w1\<rparr>, Some e)
              | None \<Rightarrow>
                  if endswith fname ''.yaml'' \<or> endswith fname ''.yml'' then
                    (case open_w os w1 fname of
                       Inl e \<Rightarrow> (s\<lparr>world := w1\<rparr>, Some e)
                     | Inr w2 \<Rightarrow>
                         (\<lparr>world = w2,
                           files = (files s)(fname \<mapsto>
                                     concat (map (\<lambda>line. line @ [CHR 0x0A]) config_file))\<rparr>,
                          None))
                  else
                    (s\<lparr>world := w1\<rparr>,
                     Some (raise_named ''FileError''
                             ''Parameter fname must end with .yaml or .yml''))))"

text \<open>
  A small operating system to run the writer on: the world is the list of existing
  directories, \<open>mkdir\<close> refuses an existing one, and any file can be opened.
\<close>

definition flat_os :: "string list os_api" where
  "flat_os = \<lparr>isdir = (\<lambda>w p. p \<in> set w),
              mkdir = (\<lambda>w p. if p \<in> set w then Inl FileExistsError else Inr (p # w)),
              open_w = (\<lambda>w p. Inr w)\<rparr>"

section \<open>The data loader \<open>Plotter.get_data_array\<close>\<close>

text \<open>
  The attributes of a \<open>Plotter\<close> that decide the load and the dispatch.  \<open>plot\<close> is \<open>None\<close> for
  the default \<open>False\<close>; \<open>log_flag\<close> is the attribute \<open>log\<close>; \<open>data_array\<close> is \<open>None\<close> as
  long as the attribute has not been bound (the constructor does not bind it).
\<close>

record 'a plotter =
  filename :: string
  plot :: "string option"
  log_flag :: bool
  data_array :: "'a ndarray option"

text \<open>
  What the loader shows or hands over, in order: a printed line, a call of one of the
  renderers, the construction of the 3D viewer, the dropdown over an archive's members.
\<close>

datatype 'a event =
    Printed string
  | PlotData "'a ndarray"
  | Plot3dSlices "'a ndarray" bool
  | Viewer3D "'a ndarray"
  | Dropdown "string list"

text \<open>
  The file readers are parameters: \<open>np.load\<close> on an array file, the read of the dataset
  \<open>entry_1/data_1/data\<close> of an HDF5 file, and \<open>np.load\<close> on an archive, which gives its
  named members.
\<close>

record 'a readers =
  np_load :: "string \<Rightarrow> exn + 'a ndarray"
  h5_read :: "string \<Rightarrow> exn + 'a ndarray"
  npz_load :: "string \<Rightarrow> exn + (string \<times> 'a ndarray) list"

text \<open>\<open>a[0]\<close> and \<open>np.swapaxes(a, 0, 2)\<close>.\<close>

definition index0 :: "'a ndarray \<Rightarrow> exn + 'a ndarray" where
  "index0 a =
     (case shape a of
        [] \<Rightarrow> Inl IndexError
      | n # rest \<Rightarrow>
          if n = 0 then Inl IndexError
          else Inr \<lparr>shape = rest, elems = take (prod_list rest) (elems a)\<rparr>)"

definition swapaxes02 :: "'a ndarray \<Rightarrow> exn + 'a ndarray" where
  "swapaxes02 a =
     (case shape a of
        s0 # s1 # s2 # rest \<Rightarrow>
          (let r = prod_list rest in
           Inr \<lparr>shape = s2 # s1 # s0 # rest,
                elems = concat (map (\<lambda>k. concat (map (\<lambda>j. concat (map (\<lambda>i.
                          take r (drop (((i * s1 + j) * s2 + k) * r) (elems a)))
                          [0..<s0])) [0..<s1])) [0..<s2])\<rparr>)
      | _ \<Rightarrow> Inl AxisError)"

text \<open>Reading one element of a 3D and of a 4D array by its indices.\<close>

definition at3 :: "'a ndarray \<Rightarrow> nat \<Rightarrow> nat \<Rightarrow> nat \<Rightarrow> 'a" where
  "at3 a i j k = elems a ! ((i * (shape a ! 1) + j) * (shape a ! 2) + k)"

definition at4 :: "'a ndarray \<Rightarrow> nat \<Rightarrow> nat \<Rightarrow> nat \<Rightarrow> nat \<Rightarrow> 'a" where
  "at4 a h i j k =
     elems a ! (((h * (shape a ! 1) + i) * (shape a ! 2) + j) * (shape a ! 3) + k)"

text \<open>The two messages of the loader, without the line breaks and indentation of the second.\<close>

definition could_not_load :: string where
  "could_not_load = ''Could not load data ... ''"

definition hdf5_message :: string where
  "hdf5_message =
     ''The file could not be loaded, verify that you are loading a file with an hdf5 architecture (.nxs, .cxi, .h5, ...) and that the file exists. Otherwise, verify that the data is saved in f.root.entry_1.data_1.data[:], as it should be following csi conventions.''"

definition hash_line :: string where
  "hash_line = replicate 113 CHR ''#''"

text \<open>
  The dispatch after a load.  Every branch reads \<open>self.data_array\<close>, which raises
  \<open>AttributeError\<close> while the attribute is unbound; the last branch has printed two
  lines by then.
\<close>

definition plot_dispatch :: "'a plotter \<Rightarrow> 'a event list \<times> exn option" where
  "plot_dispatch p =
     (if plot p = Some ''2D'' then
        (case data_array p of
           None \<Rightarrow> ([], Some AttributeError)
         | Some a \<Rightarrow> ([PlotData a], None))
      else if plot p = Some ''slices'' then
        (case data_array p of
           None \<Rightarrow> ([], Some AttributeError)
         | Some a \<Rightarrow> ([Plot3dSlices a (log_flag p)], None))
      else if plot p = Some ''3D'' \<and> data_array p = None then ([], Some AttributeError)
      else if plot p = Some ''3D'' \<and> map_option ndim (data_array p) = Some 3 then
        (case data_array p of
           None \<Rightarrow> ([], Some AttributeError)
         | Some a \<Rightarrow> ([Viewer3D a], None))
      else
        (case data_array p of
           None \<Rightarrow>
             ([Printed hash_line, Printed (''Loaded data array from '' @ filename p)],
              Some AttributeError)
         | Some a \<Rightarrow>
             ([Printed hash_line,
               Printed (''Loaded data array from '' @ filename p),
               Printed (CHR 0x09 # ''Nb of dimensions: '' @ show_nat (ndim a)),
               Printed (CHR 0x09 # ''Shape: '' @ repr_shape (shape a)),
               Printed hash_line], None)))"

text \<open>
  The \<open>.h5\<close> branch: three statements under one \<open>try\<close>.  A failure of the second or
  third leaves \<open>data_array\<close> as the statements before it bound it.
\<close>

definition load_h5 :: "'a readers \<Rightarrow> 'a plotter \<Rightarrow> 'a plotter \<times> 'a event list" where
  "load_h5 rd p =
     (case h5_read rd (filename p) of
        Inl e \<Rightarrow> (p, [Printed hdf5_message])
      | Inr a \<Rightarrow>
          (let p1 = p\<lparr>data_array := Some a\<rparr> in
           case (if ndim a = 4 then index0 a else Inr a) of
             Inl e \<Rightarrow> (p1, [Printed hdf5_message])
           | Inr b \<Rightarrow>
               (let p2 = p1\<lparr>data_array := Some b\<rparr> in
                case swapaxes02 b of
                  Inl e \<Rightarrow> (p2, [Printed hdf5_message])
                | Inr c \<Rightarrow> (p2\<lparr>data_array := Some c\<rparr>, []))))"

definition load_cxi :: "'a readers \<Rightarrow> 'a plotter \<Rightarrow> 'a plotter \<times> 'a event list" where
  "load_cxi rd p =
     (case h5_read rd (filename p) of
        Inl e \<Rightarrow> (p, [Printed hdf5_message])
      | Inr a \<Rightarrow> (p\<lparr>data_array := Some a\<rparr>, []))"

definition load_npy :: "'a readers \<Rightarrow> 'a plotter \<Rightarrow> 'a plotter \<times> 'a event list" where
  "load_npy rd p =
     (case np_load rd (filename p) of
        Inl e \<Rightarrow> (p, [Printed could_not_load])
      | Inr a \<Rightarrow> (p\<lparr>data_array := Some a\<rparr>, []))"

text \<open>
  The whole loader.  In the archive branch the handler is \<open>except Exception as E: raise E\<close>;
  the function decorated with \<open>interact\<close> is run once, on the first member.
\<close>

definition get_data_array ::
  "'a readers \<Rightarrow> 'a plotter \<Rightarrow> 'a plotter \<times> 'a event list \<times> exn option" where
  "get_data_array rd p =
     (if endswith (filename p) ''.npy'' \<or> endswith (filename p) ''.h5''
         \<or> endswith (filename p) ''.cxi'' then
        (let (p', out) =
               (if endswith (filename p) ''.npy'' then load_npy rd p
                else if endswith (filename p) ''.cxi'' then load_cxi rd p
                else load_h5 rd p);
             (out', err) = plot_dispatch p'
         in (p', out @ out', err))
      else if endswith (filename p) ''.npz'' then
        (case npz_load rd (filename p) of
           Inl e \<Rightarrow> (p, [], Some e)
         | Inr rawdata \<Rightarrow>
             (case rawdata of
                [] \<Rightarrow> (p, [], Some IndexError)
              | (name, a) # _ \<Rightarrow>
                  (let p' = p\<lparr>data_array := Some a\<rparr>;
                       (out', err) = plot_dispatch p'
                   in (p', Dropdown (map fst rawdata) # out', err))))
      else (p, [], None))"

text \<open>Readers on which every read fails, and one that finds a given array in every HDF5 file.\<close>

definition failing_readers :: "'a readers" where
  "failing_readers = \<lparr>np_load = (\<lambda>f. Inl FileNotFoundError),
                      h5_read = (\<lambda>f. Inl FileNotFoundError),
                      npz_load = (\<lambda>f. Inl FileNotFoundError)\<rparr>"

definition h5_holding :: "'a ndarray \<Rightarrow> 'a readers" where
  "h5_holding a = \<lparr>np_load = (\<lambda>f. Inl FileNotFoundError),
                   h5_read = (\<lambda>f. Inr a),
                   npz_load = (\<lambda>f. Inl FileNotFoundError)\<rparr>"

text \<open>A 4D array of shape \<open>(1, 2, 3, 4)\<close> holding 0 to 23, and a fresh \<open>Plotter\<close> on a file.\<close>

definition sample_4d :: "nat ndarray" where
  "sample_4d = \<lparr>shape = [1, 2, 3, 4], elems = [0..<24]\<rparr>"

definition fresh_plotter :: "string \<Rightarrow> 'a plotter" where
  "fresh_plotter f = \<lparr>filename = f, plot = None, log_flag = False, data_array = None\<rparr>"

section \<open>The metadata extractor \<open>extract_metadata\<close>\<close>

text \<open>
  A Python \<open>str\<close> object: its identity and its characters.  \<open>is\<close> compares identities,
  \<open>==\<close> compares characters.  The literal \<open>"SIXS_2019"\<close> of the module is one interned
  object; a string built or read at run time is another object, whatever its characters.
\<close>

record pystr =
  oid :: nat
  chars :: string

definition py_is :: "pystr \<Rightarrow> pystr \<Rightarrow> bool" where
  "py_is a b = (oid a = oid b)"

definition py_eq :: "pystr \<Rightarrow> pystr \<Rightarrow> bool" where
  "py_eq a b = (chars a = chars b)"

definition SIXS_2019_literal :: pystr where
  "SIXS_2019_literal = \<lparr>oid = 0, chars = ''SIXS_2019''\<rparr>"

text \<open>
  A table cell, and a \<open>DataFrame\<close> as its column names and its rows.  Physical values
  are reals, a scan number is an integer, and there are no text cells: in a well-formed
  log every entry is a number or missing.  A CSV file either parses to a frame or does
  not parse (then \<open>pd.read_csv\<close> raises a \<open>ValueError\<close>); \<open>to_csv\<close> followed by
  \<open>read_csv\<close> gives the frame back.
\<close>

datatype cell = CInt int | CNum real | CArr "real list" | CNaN

record dataframe =
  columns :: "string list"
  rows :: "cell list list"

datatype csv_content = Unparsable | Frame dataframe

datatype shown = Print string | Display dataframe

text \<open>
  The \<open>output\<close> group of the result file maps node names to arrays; the reader of the
  beamline file gives an object whose attributes are arrays; the \<open>Dataset\<close> has the two
  attributes the extractor reads (\<open>None\<close> while unset) and the attributes it writes.
\<close>

type_synonym h5group = "string \<rightharpoonup> real list"

type_synonym nxs_data = "string \<rightharpoonup> real list"

record dataset =
  beamline :: "pystr option"
  path_to_nxs_data :: "string option"
  meta :: "string \<rightharpoonup> cell"

record env =
  csvs :: "string \<rightharpoonup> csv_content"
  screen :: "shown list"

definition node :: "h5group \<Rightarrow> string \<Rightarrow> exn + real list" where
  "node f name = (case f name of None \<Rightarrow> Inl NoSuchNodeError | Some a \<Rightarrow> Inr a)"

definition item :: "exn + real list \<Rightarrow> nat \<Rightarrow> exn + cell" where
  "item a i =
     (case a of
        Inl e \<Rightarrow> Inl e
      | Inr xs \<Rightarrow> if i < length xs then Inr (CNum (xs ! i)) else Inl IndexError)"

definition whole :: "exn + real list \<Rightarrow> exn + cell" where
  "whole a = (case a of Inl e \<Rightarrow> Inl e | Inr xs \<Rightarrow> Inr (CArr xs))"

text \<open>
  Assigning an array to a column of the one-row frame: a single value is stored, any
  other length is a \<open>ValueError\<close> of pandas.
\<close>

definition column_value :: "exn + real list \<Rightarrow> exn + cell" where
  "column_value a =
     (case a of
        Inl e \<Rightarrow> Inl e
      | Inr xs \<Rightarrow> (case xs of [x] \<Rightarrow> Inr (CNum x) | _ \<Rightarrow> Inl ValueError))"

fun collect :: "(exn + cell) list \<Rightarrow> exn + cell list" where
  "collect [] = Inr []"
| "collect (v # vs) =
     (case v of
        Inl e \<Rightarrow> Inl e
      | Inr x \<Rightarrow> (case collect vs of Inl e \<Rightarrow> Inl e | Inr xs \<Rightarrow> Inr (x # xs)))"

definition set_col :: "dataframe \<Rightarrow> string \<Rightarrow> cell \<Rightarrow> dataframe" where
  "set_col df c x =
     (if c \<in> set (columns df) then
        df\<lparr>rows := map (\<lambda>r. map (\<lambda>(n, y). if n = c then x else y) (zip (columns df) r)) (rows df)\<rparr>
      else \<lparr>columns = columns df @ [c], rows = map (\<lambda>r. r @ [x]) (rows df)\<rparr>)"

text \<open>Column assignments in sequence, stopping at the first that raises.\<close>

fun assign_all :: "dataframe \<Rightarrow> (string \<times> (exn + cell)) list \<Rightarrow> dataframe \<times> exn option" where
  "assign_all df [] = (df, None)"
| "assign_all df ((c, v) # rest) =
     (case v of
        Inl e \<Rightarrow> (df, Some e)
      | Inr x \<Rightarrow> assign_all (set_col df c x) rest)"

fun mirror_all :: "dataset \<Rightarrow> (string \<times> (exn + cell)) list \<Rightarrow> dataset \<times> exn option" where
  "mirror_all ds [] = (ds, None)"
| "mirror_all ds ((c, v) # rest) =
     (case v of
        Inl e \<Rightarrow> (ds, Some e)
      | Inr x \<Rightarrow> mirror_all (ds\<lparr>meta := (meta ds)(c \<mapsto> x)\<rparr>) rest)"

text \<open>
  \<open>np.round(np.mean(t[1:] - t[:-1]), 4)\<close>: the mean of no differences is not a number,
  and numpy rounds a half to the even neighbour.
\<close>

definition round_half_even :: "real \<Rightarrow> int" where
  "round_half_even r =
     (let f = floor r; d = r - of_int f in
      if d < 1 / 2 then f else if d > 1 / 2 then f + 1 else if even f then f else f + 1)"

definition tilt_step :: "real list \<Rightarrow> cell" where
  "tilt_step t =
     (let diffs = map2 (\<lambda>a b. a - b) (tl t) (butlast t) in
      if diffs = [] then CNaN
      else CNum (of_int (round_half_even (sum_list diffs / of_nat (length diffs) * 10000)) / 10000))"

text \<open>The frame of the eight required fields, in the order the source evaluates them.\<close>

definition base_columns :: "string list" where
  "base_columns = [''scan'', ''qx'', ''qy'', ''qz'', ''q_norm'', ''d_hkl'', ''inplane_angle'',
                   ''out_of_plane_angle'', ''bragg_peak'']"

definition required_frame :: "int \<Rightarrow> h5group \<Rightarrow> exn + dataframe" where
  "required_frame scan_nb f =
     (case collect [Inr (CInt scan_nb),
                    item (node f ''q'') 0,
                    item (node f ''q'') 1,
                    item (node f ''q'') 2,
                    whole (node f ''qnorm''),
                    whole (node f ''dist_plane''),
                    whole (node f ''bragg_inplane''),
                    whole (node f ''bragg_outofplane''),
                    whole (node f ''bragg_peak'')] of
        Inl e \<Rightarrow> Inl e
      | Inr r \<Rightarrow> Inr \<lparr>columns = base_columns, rows = [r]\<rparr>)"

text \<open>
  The first optional block.  The local \<open>tilt_angle\<close> is bound only when the block ran to
  its last statement.
\<close>

definition extra_columns :: "h5group \<Rightarrow> dataframe \<Rightarrow> dataframe \<times> cell option \<times> exn option" where
  "extra_columns f temp_df =
     (case assign_all temp_df
             [(''COM_rocking_curve'', column_value (node f ''COM_rocking_curve'')),
              (''interp_fwhm'', column_value (node f ''interp_fwhm'')),
              (''tilt_angle'', map_sum id tilt_step (node f ''tilt_values''))] of
        (df, None) \<Rightarrow> (df, map_option tilt_step (f ''tilt_values''), None)
      | (df, Some e) \<Rightarrow> (df, None, if e = NoSuchNodeError then None else Some e))"

definition mirror_required :: "h5group \<Rightarrow> dataset \<Rightarrow> dataset \<times> exn option" where
  "mirror_required f ds =
     mirror_all ds
       [(''bragg_peak'', whole (node f ''bragg_peak'')),
        (''q'', whole (node f ''q'')),
        (''qnorm'', whole (node f ''qnorm'')),
        (''dist_plane'', whole (node f ''dist_plane'')),
        (''bragg_inplane'', whole (node f ''bragg_inplane'')),
        (''bragg_outofplane'', whole (node f ''bragg_outofplane''))]"

definition mirror_extra :: "h5group \<Rightarrow> cell option \<Rightarrow> dataset \<Rightarrow> dataset \<times> exn option" where
  "mirror_extra f tilt_angle ds =
     (case mirror_all ds
             [(''tilt_values'', whole (node f ''tilt_values'')),
              (''rocking_curve'', whole (node f ''rocking_curve'')),
              (''interp_tilt'', whole (node f ''interp_tilt'')),
              (''interp_curve'', whole (node f ''interp_curve'')),
              (''detector_data_COM'', whole (node f ''detector_data_COM'')),
              (''COM_rocking_curve'', whole (node f ''COM_rocking_curve'')),
              (''interp_fwhm'', whole (node f ''interp_fwhm'')),
              (''tilt_angle'', (case tilt_angle of
                                  None \<Rightarrow> Inl (UnboundLocalError ''tilt_angle'')
                                | Some t \<Rightarrow> Inr t))] of
        (ds', None) \<Rightarrow> (ds', None)
      | (ds', Some e) \<Rightarrow> (ds', if e = NoSuchNodeError then None else Some e))"

text \<open>The block for SixS: attribute reads of the beamline reader's object.\<close>

definition attr :: "nxs_data \<Rightarrow> string \<Rightarrow> exn + real list" where
  "attr d name = (case d name of None \<Rightarrow> Inl AttributeError | Some a \<Rightarrow> Inr a)"

definition first_of :: "exn + real list \<Rightarrow> exn + real" where
  "first_of a =
     (case a of
        Inl e \<Rightarrow> Inl e
      | Inr xs \<Rightarrow> (case xs of [] \<Rightarrow> Inl IndexError | x # _ \<Rightarrow> Inr x))"

definition last_of :: "exn + real list \<Rightarrow> exn + real" where
  "last_of a =
     (case a of
        Inl e \<Rightarrow> Inl e
      | Inr xs \<Rightarrow> if xs = [] then Inl IndexError else Inr (last xs))"

definition both :: "(real \<Rightarrow> real \<Rightarrow> real) \<Rightarrow> exn + real \<Rightarrow> exn + real \<Rightarrow> exn + real" where
  "both g a b =
     (case a of
        Inl e \<Rightarrow> Inl e
      | Inr x \<Rightarrow> (case b of Inl e \<Rightarrow> Inl e | Inr y \<Rightarrow> Inr (g x y)))"

definition sixs_columns :: "nxs_data \<Rightarrow> (string \<times> (exn + cell)) list" where
  "sixs_columns d =
     [(''x'', map_sum id CNum (first_of (attr d ''x''))),
      (''y'', map_sum id CNum (first_of (attr d ''y''))),
      (''z'', map_sum id CNum (first_of (attr d ''z''))),
      (''mu'', map_sum id CNum (first_of (attr d ''mu''))),
      (''delta'', map_sum id CNum (first_of (attr d ''delta''))),
      (''omega'', map_sum id CNum (first_of (attr d ''omega''))),
      (''gamma'', map_sum id CNum (first_of (attr d ''gamma''))),
      (''gamma-mu'', map_sum id CNum
         (both (\<lambda>g m. g - m) (first_of (attr d ''gamma'')) (first_of (attr d ''mu'')))),
      (''step_size'', map_sum id CNum
         (both (\<lambda>s n. s / n)
            (both (\<lambda>l f. l - f) (last_of (attr d ''mu'')) (first_of (attr d ''mu'')))
            (map_sum id (\<lambda>xs. of_nat (length xs)) (attr d ''mu'')))),
      (''integration_time'', map_sum id CNum (first_of (attr d ''integration_time''))),
      (''steps'', map_sum id (\<lambda>xs. CInt (int (length xs))) (attr d ''integration_time''))]"

definition sixs_message :: string where
  "sixs_message = ''Could not extract metadata from SixS file''"

text \<open>
  The part of the extractor that runs when a \<open>Dataset\<close> is given.  The test of the
  beamline is the source's \<open>is\<close>; the reader is opened before the \<open>try\<close>.
\<close>

definition dataset_part ::
  "(string \<Rightarrow> exn + nxs_data) \<Rightarrow> h5group \<Rightarrow> cell option \<Rightarrow> dataframe \<Rightarrow> dataset \<Rightarrow>
     dataframe \<times> dataset \<times> shown list \<times> exn option" where
  "dataset_part nxs_read f tilt_angle temp_df ds =
     (case mirror_required f ds of
        (ds1, Some e) \<Rightarrow> (temp_df, ds1, [], Some e)
      | (ds1, None) \<Rightarrow>
          (case mirror_extra f tilt_angle ds1 of
             (ds2, Some e) \<Rightarrow> (temp_df, ds2, [], Some e)
           | (ds2, None) \<Rightarrow>
               (case beamline ds2 of
                  None \<Rightarrow> (temp_df, ds2, [], Some AttributeError)
                | Some b \<Rightarrow>
                    if py_is b SIXS_2019_literal then
                      (case path_to_nxs_data ds2 of
                         None \<Rightarrow> (temp_df, ds2, [], Some AttributeError)
                       | Some path \<Rightarrow>
                           (case nxs_read path of
                              Inl e \<Rightarrow> (temp_df, ds2, [], Some e)
                            | Inr d \<Rightarrow>
                                (case assign_all temp_df (sixs_columns d) of
                                   (df, None) \<Rightarrow> (df, ds2, [], None)
                                 | (df, Some e) \<Rightarrow>
                                     if e = AttributeError
                                     then (df, ds2, [Print sixs_message], None)
                                     else (df, ds2, [], Some e))))
                    else (temp_df, ds2, [], None))))"

text \<open>
  Saving in the CSV log.  \<open>df['scan'] == scan_nb\<close> holds for an integer cell with that
  number and for a float cell with that value.  \<open>pd.concat\<close> takes the union of the
  columns and fills the gaps with NaN.  \<open>hash_print\<close> is called by its bare name.
\<close>

definition cell_is_scan :: "int \<Rightarrow> cell \<Rightarrow> bool" where
  "cell_is_scan scan_nb c =
     (case c of CInt n \<Rightarrow> n = scan_nb | CNum r \<Rightarrow> r = of_int scan_nb | _ \<Rightarrow> False)"

definition col_index :: "string list \<Rightarrow> string \<Rightarrow> nat option" where
  "col_index cols c = (if c \<in> set cols then Some (length (takeWhile (\<lambda>n. n \<noteq> c) cols)) else None)"

definition cell_at :: "string list \<Rightarrow> cell list \<Rightarrow> string \<Rightarrow> cell" where
  "cell_at cols r c =
     (case col_index cols c of
        None \<Rightarrow> CNaN
      | Some i \<Rightarrow> if i < length r then r ! i else CNaN)"

definition reindex :: "string list \<Rightarrow> string list \<Rightarrow> cell list \<Rightarrow> cell list" where
  "reindex cols cols' r = map (cell_at cols r) cols'"

definition drop_scan :: "int \<Rightarrow> dataframe \<Rightarrow> dataframe" where
  "drop_scan scan_nb df =
     df\<lparr>rows := filter (\<lambda>r. \<not> cell_is_scan scan_nb (cell_at (columns df) r ''scan'')) (rows df)\<rparr>"

definition concat_frames :: "dataframe \<Rightarrow> dataframe \<Rightarrow> dataframe" where
  "concat_frames df1 df2 =
     (let cols = columns df1 @ filter (\<lambda>c. c \<notin> set (columns df1)) (columns df2) in
      \<lparr>columns = cols,
       rows = map (reindex (columns df1) cols) (rows df1)
              @ map (reindex (columns df2) cols) (rows df2)\<rparr>)"

definition head :: "dataframe \<Rightarrow> dataframe" where
  "head df = df\<lparr>rows := take 5 (rows df)\<rparr>"

definition hash_print :: "string \<Rightarrow> shown list \<times> exn option" where
  "hash_print msg =
     (case resolve_global ''hash_print'' of
        Inl e \<Rightarrow> ([], Some e)
      | Inr _ \<Rightarrow> ([Print msg], None))"

definition save_csv :: "string \<Rightarrow> int \<Rightarrow> dataframe \<Rightarrow> string option \<Rightarrow> env \<Rightarrow> env \<times> exn option" where
  "save_csv cwd scan_nb temp_df metadata_csv_file s =
     (case (case metadata_csv_file of
              None \<Rightarrow> Inl ValueError
            | Some path \<Rightarrow>
                (case csvs s path of
                   None \<Rightarrow> Inl FileNotFoundError
                 | Some Unparsable \<Rightarrow> Inl ValueError
                 | Some (Frame df) \<Rightarrow> Inr (path, df))) of
        Inr (path, df) \<Rightarrow>
          if ''scan'' \<notin> set (columns df) then (s, Some (KeyError ''scan''))
          else
            (let result = concat_frames (drop_scan scan_nb df) temp_df;
                 (out, err) = hash_print (''Saved logs in '' @ path)
             in (\<lparr>csvs = (csvs s)(path \<mapsto> Frame result),
                  screen = screen s @ [Display (head result)] @ out\<rparr>, err))
      | Inl e \<Rightarrow>
          (let path = cwd @ ''/metadata.csv'';
               (out, err) = hash_print (''Saved logs in '' @ path)
           in (\<lparr>csvs = (csvs s)(path \<mapsto> Frame temp_df),
                screen = screen s @ [Display (head temp_df)] @ out\<rparr>, err)))"

text \<open>
  The extractor up to the end of its \<open>with\<close> block: the frame of the scan, the
  \<open>Dataset\<close> as it has been written, and what has been printed.  \<open>opened\<close> is what
  \<open>tb.open_file\<close> gives for \<open>metadata_file\<close>; \<open>gwaihir_dataset\<close> is \<open>None\<close> when the
  argument is not a \<open>Dataset\<close>.
\<close>

definition gather_metadata ::
  "(string \<Rightarrow> exn + nxs_data) \<Rightarrow> int \<Rightarrow> exn + h5group \<Rightarrow> dataset option \<Rightarrow>
     (exn + dataframe) \<times> dataset option \<times> shown list" where
  "gather_metadata nxs_read scan_nb opened gwaihir_dataset =
     (case opened of
        Inl e \<Rightarrow> (Inl e, gwaihir_dataset, [])
      | Inr f \<Rightarrow>
          (case required_frame scan_nb f of
             Inl e \<Rightarrow> (Inl e, gwaihir_dataset, [])
           | Inr df0 \<Rightarrow>
               (case extra_columns f df0 of
                  (df1, tilt_angle, Some e) \<Rightarrow> (Inl e, gwaihir_dataset, [])
                | (df1, tilt_angle, None) \<Rightarrow>
                    (case gwaihir_dataset of
                       None \<Rightarrow> (Inr df1, None, [])
                     | Some ds \<Rightarrow>
                         (case dataset_part nxs_read f tilt_angle df1 ds of
                            (df2, ds', out, Some e) \<Rightarrow> (Inl e, Some ds', out)
                          | (df2, ds', out, None) \<Rightarrow> (Inr df2, Some ds', out))))))"

text \<open>The whole extractor: the \<open>with\<close> block, then the save in the CSV log.\<close>

definition extract_metadata ::
  "(string \<Rightarrow> exn + nxs_data) \<Rightarrow> string \<Rightarrow> int \<Rightarrow> exn + h5group \<Rightarrow> dataset option \<Rightarrow>
     string option \<Rightarrow> env \<Rightarrow> env \<times> dataset option \<times> exn option" where
  "extract_metadata nxs_read cwd scan_nb opened gwaihir_dataset metadata_csv_file s =
     (case gather_metadata nxs_read scan_nb opened gwaihir_dataset of
        (Inl e, ds, out) \<Rightarrow> (s\<lparr>screen := screen s @ out\<rparr>, ds, Some e)
      | (Inr temp_df, ds, out) \<Rightarrow>
          (let (s', err) = save_csv cwd scan_nb temp_df metadata_csv_file
                             (s\<lparr>screen := screen s @ out\<rparr>)
           in (s', ds, err)))"

text \<open>
  Sample inputs: a result file with the eight required fields, a beamline file with
  every attribute the SixS block reads, and a log holding two scans.
\<close>

definition sample_h5 :: h5group where
  "sample_h5 =
     [''q'' \<mapsto> [1, 2, 3], ''qnorm'' \<mapsto> [4], ''dist_plane'' \<mapsto> [5], ''bragg_inplane'' \<mapsto> [6],
      ''bragg_outofplane'' \<mapsto> [7], ''bragg_peak'' \<mapsto> [8, 9, 10]]"

definition sample_h5b :: h5group where
  "sample_h5b =
     [''q'' \<mapsto> [11, 12, 13], ''qnorm'' \<mapsto> [14], ''dist_plane'' \<mapsto> [15],
      ''bragg_inplane'' \<mapsto> [16], ''bragg_outofplane'' \<mapsto> [17], ''bragg_peak'' \<mapsto> [18, 19, 20]]"

definition sample_nxs :: "string \<Rightarrow> exn + nxs_data" where
  "sample_nxs path =
     Inr [''x'' \<mapsto> [1], ''y'' \<mapsto> [2], ''z'' \<mapsto> [3], ''mu'' \<mapsto> [0, 1], ''delta'' \<mapsto> [5],
          ''omega'' \<mapsto> [6], ''gamma'' \<mapsto> [7], ''integration_time'' \<mapsto> [1, 1]]"

definition sample_log :: dataframe where
  "sample_log = \<lparr>columns = [''scan'', ''qx''], rows = [[CInt 7, CNum 1], [CInt 8, CNum 2]]\<rparr>"

definition sample_env :: env where
  "sample_env = \<lparr>csvs = [''log.csv'' \<mapsto> Frame sample_log], screen = []\<rparr>"

section \<open>The volume viewer: \<open>ThreeDViewer.on_update_plot\<close>\<close>

text \<open>
  The range slider of the clip distance, with the behaviour of the widget library the
  source relies on (its comment: "will throw an exception if min>max"): assigning a
  bound that would cross the other one raises \<open>TraitError\<close>, and an accepted bound clamps
  the current pair of values.
\<close>

record range_slider =
  rmin :: real
  rmax :: real
  rvalue :: "real \<times> real"

definition set_max :: "range_slider \<Rightarrow> real \<Rightarrow> exn + range_slider" where
  "set_max s new =
     (if new < rmin s then Inl TraitError
      else Inr (s\<lparr>rmax := new, rvalue := (min new (fst (rvalue s)), min new (snd (rvalue s)))\<rparr>))"

definition set_min :: "range_slider \<Rightarrow> real \<Rightarrow> exn + range_slider" where
  "set_min s new =
     (if new > rmax s then Inl TraitError
      else Inr (s\<lparr>rmin := new, rvalue := (max new (fst (rvalue s)), max new (snd (rvalue s)))\<rparr>))"

definition slider_ok :: "range_slider \<Rightarrow> bool" where
  "slider_ok s =
     (rmin s \<le> rmax s \<and> rmin s \<le> fst (rvalue s) \<and> fst (rvalue s) \<le> rmax s
      \<and> rmin s \<le> snd (rvalue s) \<and> snd (rvalue s) \<le> rmax s)"

text \<open>
  The two assignments of the clip-bound fit, in the order the source chooses:
  the first one alone, then both.
\<close>

definition fit_first :: "range_slider \<Rightarrow> real \<Rightarrow> real \<Rightarrow> exn + range_slider" where
  "fit_first s tmpmin tmpmax = (if tmpmax > rmin s then set_max s tmpmax else set_min s tmpmin)"

definition fit_clipdist :: "range_slider \<Rightarrow> real \<Rightarrow> real \<Rightarrow> exn + range_slider" where
  "fit_clipdist s tmpmin tmpmax =
     (case fit_first s tmpmin tmpmax of
        Inl e \<Rightarrow> Inl e
      | Inr s1 \<Rightarrow> if tmpmax > rmin s then set_min s1 tmpmin else set_max s1 tmpmax)"

text \<open>
  \<open>np.isclose\<close> with its default tolerances, and the clip normal with its norm as the
  source prepares them.
\<close>

definition isclose :: "real \<Rightarrow> real \<Rightarrow> bool" where
  "isclose a b = (\<bar>a - b\<bar> \<le> 1 / 10 ^ 8 + 1 / 10 ^ 5 * \<bar>b\<bar>)"

definition clip_normal :: "real \<Rightarrow> real \<Rightarrow> real \<Rightarrow> real \<times> real \<times> real \<times> real" where
  "clip_normal ux uy uz =
     (let u = sqrt (ux ^ 2 + uy ^ 2 + uz ^ 2) in
      if isclose u 0 then (1, uy, uz, 1) else (ux, uy, uz, u))"

text \<open>
  The grid point of a flat index in a volume of shape \<open>(nz, ny, nx)\<close> and its projection
  on the clip normal.
\<close>

definition projection :: "nat \<Rightarrow> nat \<Rightarrow> real \<times> real \<times> real \<times> real \<Rightarrow> nat \<Rightarrow> real" where
  "projection ny nx n i =
     (case n of (ux, uy, uz, u) \<Rightarrow>
        (of_nat (i mod nx) * ux + of_nat ((i div nx) mod ny) * uy
         + of_nat (i div (ny * nx)) * uz) / u)"

definition where_above :: "complex list \<Rightarrow> real \<Rightarrow> nat list" where
  "where_above es t = filter (\<lambda>i. cmod (es ! i) \<ge> t) [0..<length es]"

definition np_min :: "real list \<Rightarrow> exn + real" where
  "np_min xs = (case xs of [] \<Rightarrow> Inl ValueError | x # ys \<Rightarrow> Inr (fold min ys x))"

definition np_max :: "real list \<Rightarrow> exn + real" where
  "np_max xs = (case xs of [] \<Rightarrow> Inl ValueError | x # ys \<Rightarrow> Inr (fold max ys x))"

text \<open>
  The view state.  \<open>clips_disabled\<close> stands for the \<open>disabled\<close> flag of the four clip
  sliders, which are always set together; \<open>observing\<close> tells whether the clip sliders
  have \<open>on_update_plot\<close> as observer; \<open>printed\<close> collects the exceptions shown by
  \<open>print(ex)\<close>.
\<close>

record 'm viewer =
  d :: "complex ndarray"
  threshold :: real
  toggle_plane :: bool
  clipx :: real
  clipy :: real
  clipz :: real
  clipdist :: range_slider
  clips_disabled :: bool
  plane_text :: string
  toggle_phase :: string
  colormap :: string
  colormap_disabled :: bool
  colormap_range :: "real \<times> real"
  meshes :: "'m list"
  progress :: nat
  observing :: bool
  printed :: "exn list"

text \<open>
  The library calls of the \<open>try\<close> block are parameters: the surface extraction on the
  masked magnitudes at a level, the interpolation of the data on the vertices, the two
  colourings, the construction of the mesh, and the formatting of the plane equation.
\<close>

record ('s, 'v, 'c, 'm) libs =
  marching_cubes :: "real ndarray \<Rightarrow> real \<Rightarrow> exn + 's"
  rgi :: "'s \<Rightarrow> exn + 'v"
  complex2rgbalin :: "'v \<Rightarrow> exn + 'c"
  scalar_mappable :: "string \<Rightarrow> real \<times> real \<Rightarrow> 'v \<Rightarrow> exn + 'c"
  plot_trisurf :: "'s \<Rightarrow> 'c \<Rightarrow> exn + 'm"
  format_plane :: "real \<Rightarrow> real \<Rightarrow> real \<Rightarrow> real \<Rightarrow> real \<Rightarrow> string"

text \<open>
  The clipping branch, up to the mask: everything here runs outside any \<open>try\<close>.
  \<open>tmp.min()\<close> and \<open>tmp.max()\<close> raise \<open>ValueError\<close> on an empty selection.
\<close>

definition clip_branch ::
  "('s, 'v, 'c, 'm) libs \<Rightarrow> 'm viewer \<Rightarrow> 'm viewer \<times> (exn + bool list)" where
  "clip_branch L w =
     (let w1 = w\<lparr>clips_disabled := False\<rparr>;
          n = clip_normal (clipx w) (clipy w) (clipz w)
      in case shape (d w) of
           [nz, ny, nx] \<Rightarrow>
             (let tmp = map (projection ny nx n) (where_above (elems (d w)) (threshold w)) in
              case np_min tmp of
                Inl e \<Rightarrow> (w1, Inl e)
              | Inr lo \<Rightarrow>
                  (case np_max tmp of
                     Inl e \<Rightarrow> (w1, Inl e)
                   | Inr hi \<Rightarrow>
                       (case fit_first (clipdist w1) (lo - 1) (hi + 1) of
                          Inl e \<Rightarrow> (w1, Inl e)
                        | Inr s1 \<Rightarrow>
                            (case fit_clipdist (clipdist w1) (lo - 1) (hi + 1) of
                               Inl e \<Rightarrow> (w1\<lparr>clipdist := s1\<rparr>, Inl e)
                             | Inr s2 \<Rightarrow>
                                 (let c = map (\<lambda>i. projection ny nx n i > fst (rvalue s2)
                                                   \<and> projection ny nx n i < snd (rvalue s2))
                                              [0..<length (elems (d w))]
                                  in case n of (ux, uy, uz, u) \<Rightarrow>
                                       (w1\<lparr>clipdist := s2,
                                           plane_text := format_plane L (fst (rvalue s2)) (ux / u)
                                                           (uy / u) (uz / u) (snd (rvalue s2))\<rparr>,
                                        Inr c))))))
         | _ \<Rightarrow> (w1, Inl ValueError))"

text \<open>The \<open>try\<close> block: any exception in it is printed and the meshes stay as they were.\<close>

definition colour ::
  "('s, 'v, 'c, 'm) libs \<Rightarrow> 'm viewer \<Rightarrow> 'v \<Rightarrow> 'm viewer \<times> (exn + 'c)" where
  "colour L w vals =
     (if toggle_phase w = ''Phase'' then
        (w\<lparr>colormap_disabled := True\<rparr>, complex2rgbalin L vals)
      else if toggle_phase w \<in> {''Abs'', ''log10(Abs)''} then
        (w\<lparr>colormap_disabled := False\<rparr>,
         scalar_mappable L (colormap w) (colormap_range w) vals)
      else (w, Inl AttributeError))"

definition try_mesh ::
  "('s, 'v, 'c, 'm) libs \<Rightarrow> 'm viewer \<Rightarrow> real ndarray \<Rightarrow> 'm viewer" where
  "try_mesh L w masked =
     (case marching_cubes L masked (threshold w) of
        Inl ex \<Rightarrow> w\<lparr>printed := printed w @ [ex]\<rparr>
      | Inr surf \<Rightarrow>
          (case rgi L surf of
             Inl ex \<Rightarrow> w\<lparr>printed := printed w @ [ex]\<rparr>
           | Inr vals \<Rightarrow>
               (case colour L w vals of
                  (w1, Inl ex) \<Rightarrow> w1\<lparr>printed := printed w1 @ [ex]\<rparr>
                | (w1, Inr col) \<Rightarrow>
                    (case plot_trisurf L surf col of
                       Inl ex \<Rightarrow> w1\<lparr>printed := printed w1 @ [ex]\<rparr>
                     | Inr mesh \<Rightarrow> w1\<lparr>meshes := [mesh]\<rparr>))))"

definition masked_volume :: "complex ndarray \<Rightarrow> bool list option \<Rightarrow> real ndarray" where
  "masked_volume a c =
     (case c of
        None \<Rightarrow> \<lparr>shape = shape a, elems = map cmod (elems a)\<rparr>
      | Some m \<Rightarrow> \<lparr>shape = shape a,
                   elems = map2 (\<lambda>x inside. if inside then cmod x else 0) (elems a) m\<rparr>)"

text \<open>
  The observer itself; \<open>v\<close> is the name of the changed trait when the call comes from a
  widget.
\<close>

definition on_update_plot ::
  "('s, 'v, 'c, 'm) libs \<Rightarrow> string option \<Rightarrow> 'm viewer \<Rightarrow> 'm viewer \<times> exn option" where
  "on_update_plot L v w =
     (if v \<noteq> None \<and> v \<noteq> Some ''value'' then (w, None)
      else
        (let w0 = w\<lparr>progress := 7, observing := False\<rparr>;
             (w1, c) = (if toggle_plane w0
                        then (case clip_branch L w0 of
                                (w', Inl e) \<Rightarrow> (w', Inl e)
                              | (w', Inr m) \<Rightarrow> (w', Inr (Some m)))
                        else (w0\<lparr>clips_disabled := True, plane_text := []\<rparr>, Inr None))
         in case c of
              Inl e \<Rightarrow> (w1, Some e)
            | Inr m \<Rightarrow>
                ((try_mesh L w1 (masked_volume (d w1) m))\<lparr>observing := True, progress := 10\<rparr>,
                 None)))"

text \<open>
  A sample view state on a volume of shape \<open>(1, 2, 2)\<close> in which two voxels reach the
  threshold, with a clip normal of norm one half that is not along an axis, and libraries
  in which the surface extraction refuses every level.
\<close>

definition sample_libs :: "(unit, unit, unit, unit) libs" where
  "sample_libs = \<lparr>marching_cubes = (\<lambda>a level. Inl ValueError),
                  rgi = (\<lambda>s. Inr ()),
                  complex2rgbalin = (\<lambda>v. Inr ()),
                  scalar_mappable = (\<lambda>cmap range v. Inr ()),
                  plot_trisurf = (\<lambda>s c. Inr ()),
                  format_plane = (\<lambda>lo x y z hi. [])\<rparr>"

definition sample_viewer :: "unit viewer" where
  "sample_viewer =
     \<lparr>d = \<lparr>shape = [1, 2, 2], elems = [1, 3, 3, 1]\<rparr>,
      threshold = 2,
      toggle_plane = True,
      clipx = 3 / 10, clipy = 4 / 10, clipz = 0,
      clipdist = \<lparr>rmin = 0, rmax = 100, rvalue = (0, 100)\<rparr>,
      clips_disabled = True,
      plane_text = [],
      toggle_phase = ''Phase'',
      colormap = ''Jet'',
      colormap_disabled = True,
      colormap_range = (0, 3),
      meshes = [],
      progress = 10,
      observing = True,
      printed = []\<rparr>"


section \<open>Properties of the volume viewer\<close>


lemma np_min_Min:
  assumes "xs \<noteq> []"
  shows "np_min xs = Inr (Min (set xs))"
proof (cases xs)
  case Nil
  with assms show ?thesis by simp
next
  case (Cons a list)
  then show ?thesis using Min.set_eq_fold [of a list] by (simp add: np_min_def)
qed

lemma np_max_Max:
  assumes "xs \<noteq> []"
  shows "np_max xs = Inr (Max (set xs))"
proof (cases xs)
  case Nil
  with assms show ?thesis by simp
next
  case (Cons a list)
  then show ?thesis using Max.set_eq_fold [of a list] by (simp add: np_max_def)
qed

lemma Min_le_Max_list:
  assumes ne: "xs \<noteq> []"
  shows "Min (set xs) \<le> Max (set (xs :: real list))"
proof -
  from ne have "last xs \<in> set xs" by simp
  then have "Min (set xs) \<le> last xs" "last xs \<le> Max (set xs)" by simp_all
  then show ?thesis by linarith
qed

lemma fit_steps:
  assumes ok: "slider_ok s" and le: "lo \<le> hi"
  shows "\<exists>s1 s2. (if hi > rmin s then set_max s hi = Inr s1 \<and> set_min s1 lo = Inr s2
                   else set_min s lo = Inr s1 \<and> set_max s1 hi = Inr s2)
                \<and> fit_first s lo hi = Inr s1 \<and> fit_clipdist s lo hi = Inr s2
                \<and> slider_ok s1 \<and> slider_ok s2 \<and> rmin s2 = lo \<and> rmax s2 = hi"
proof (cases "hi > rmin s")
  case True
  define s1 where "s1 = s\<lparr>rmax := hi, rvalue := (min hi (fst (rvalue s)), min hi (snd (rvalue s)))\<rparr>"
  define s2 where "s2 = s1\<lparr>rmin := lo, rvalue := (max lo (fst (rvalue s1)), max lo (snd (rvalue s1)))\<rparr>"
  have a: "set_max s hi = Inr s1" using True by (simp add: set_max_def s1_def)
  have b: "set_min s1 lo = Inr s2" using le by (simp add: set_min_def s2_def s1_def)
  have c: "slider_ok s1" using ok True by (auto simp: slider_ok_def s1_def)
  have d: "slider_ok s2" using ok True le by (auto simp: slider_ok_def s1_def s2_def)
  have e: "rmin s2 = lo" "rmax s2 = hi" by (simp_all add: s1_def s2_def)
  show ?thesis using True a b c d e by (auto simp: fit_first_def fit_clipdist_def)
next
  case False
  define s1 where "s1 = s\<lparr>rmin := lo, rvalue := (max lo (fst (rvalue s)), max lo (snd (rvalue s)))\<rparr>"
  define s2 where "s2 = s1\<lparr>rmax := hi, rvalue := (min hi (fst (rvalue s1)), min hi (snd (rvalue s1)))\<rparr>"
  have a: "set_min s lo = Inr s1" using False ok le by (simp add: set_min_def s1_def slider_ok_def)
  have b: "set_max s1 hi = Inr s2" using le by (simp add: set_max_def s2_def s1_def)
  have c: "slider_ok s1" using ok False le by (auto simp: slider_ok_def s1_def)
  have d: "slider_ok s2" using ok False le by (auto simp: slider_ok_def s1_def s2_def)
  have e: "rmin s2 = lo" "rmax s2 = hi" by (simp_all add: s1_def s2_def)
  show ?thesis using False a b c d e by (auto simp: fit_first_def fit_clipdist_def)
qed

text \<open>
  Claim C10.  When the clip normal is numerically the zero vector (its norm is close to
  zero in the sense of \<open>np.isclose\<close>), the observer replaces \<open>ux\<close> by 1 and the norm by 1;
  and whatever the three components are, the norm it then divides by, in the clip bounds
  and in the clip mask, is not zero.
\<close>

theorem clip_normal_never_zero:
  "(isclose (sqrt (ux ^ 2 + uy ^ 2 + uz ^ 2)) 0 \<longrightarrow> clip_normal ux uy uz = (1, uy, uz, 1))
   \<and> snd (snd (snd (clip_normal ux uy uz))) \<noteq> 0"
  by (auto simp: clip_normal_def Let_def isclose_def)

theorem clip_normal_never_zero_witness:
  "isclose (sqrt (0 ^ 2 + 0 ^ 2 + 0 ^ 2)) 0 \<and> clip_normal 0 0 0 = (1, 0, 0, 1)
   \<and> snd (snd (snd (clip_normal 0 0 0))) \<noteq> 0"
  using clip_normal_never_zero [of 0 0 0] by (simp add: isclose_def)


lemma try_mesh_clipdist: "clipdist (try_mesh L w m) = clipdist w"
  by (simp add: try_mesh_def colour_def split: sum.splits prod.splits)

lemma try_mesh_caught:
  assumes "marching_cubes L m (threshold w) = Inl ex"
  shows "try_mesh L w m = w\<lparr>printed := printed w @ [ex]\<rparr>"
  using assms by (simp add: try_mesh_def)

lemma clip_branch_empty:
  assumes "shape (d w) = [nz, ny, nx]"
    and "where_above (elems (d w)) (threshold w) = []"
  shows "clip_branch L w = (w\<lparr>clips_disabled := False\<rparr>, Inl ValueError)"
  using assms by (simp add: clip_branch_def Let_def np_min_def)

lemma where_above_empty:
  assumes "\<forall>x \<in> set es. cmod x < t"
  shows "where_above es t = []"
proof -
  have "\<not> t \<le> cmod (es ! i)" if "i < length es" for i
    using assms nth_mem [OF that] by fastforce
  then show ?thesis by (simp add: where_above_def filter_empty_conv)
qed

lemma on_update_plot_empty_selection:
  assumes "toggle_plane w" and "shape (d w) = [nz, ny, nx]"
    and "\<forall>x \<in> set (elems (d w)). cmod x < threshold w"
  shows "on_update_plot L (Some ''value'') w
         = (w\<lparr>progress := 7, observing := False, clips_disabled := False\<rparr>, Some ValueError)"
proof -
  let ?w0 = "w\<lparr>progress := 7, observing := False\<rparr>"
  have "where_above (elems (d ?w0)) (threshold ?w0) = []"
    using assms(3) by (simp add: where_above_empty)
  then have "clip_branch L ?w0 = (?w0\<lparr>clips_disabled := False\<rparr>, Inl ValueError)"
    using assms(2) by (intro clip_branch_empty [where nz = nz and ny = ny and nx = nx]) simp_all
  then show ?thesis using assms(1) by (simp add: on_update_plot_def Let_def)
qed

lemma try_mesh_result:
  "(\<exists>mesh. meshes (try_mesh L w m) = [mesh] \<and> printed (try_mesh L w m) = printed w)
   \<or> (\<exists>ex. meshes (try_mesh L w m) = meshes w \<and> printed (try_mesh L w m) = printed w @ [ex])"
  by (simp add: try_mesh_def colour_def split: sum.splits prod.splits)

lemma where_above_nonempty:
  assumes "i < length es" "t \<le> cmod (es ! i)"
  shows "where_above es t \<noteq> []"
proof -
  have "i \<in> set (where_above es t)" using assms by (simp add: where_above_def)
  then show ?thesis by auto
qed

lemma block_index_less:
  assumes "i < n" and "j < (m::nat)"
  shows "i * m + j < n * m"
proof -
  have "i * m + j < i * m + m" using assms(2) by simp
  also have "\<dots> = Suc i * m" by simp
  also have "\<dots> \<le> n * m" using assms(1) by (intro mult_le_mono1) simp
  finally show ?thesis .
qed

lemma flat_index_less:
  assumes "z < nz" "y < ny" "x < (nx::nat)"
  shows "(z * ny + y) * nx + x < nz * ny * nx"
proof -
  have "z * ny + y < nz * ny" using assms(1,2)
    by (metis add.commute mult.commute block_index_less)
  then have "(z * ny + y) * nx + x < (nz * ny) * nx" using assms(3)
    by (metis add.commute mult.commute block_index_less)
  then show ?thesis .
qed

lemma flat_index_decode:
  assumes "y < ny" "x < (nx::nat)"
  shows "((z * ny + y) * nx + x) mod nx = x"
    and "(((z * ny + y) * nx + x) div nx) mod ny = y"
    and "((z * ny + y) * nx + x) div (ny * nx) = z"
proof -
  show "((z * ny + y) * nx + x) mod nx = x" using assms by simp
  have dv: "((z * ny + y) * nx + x) div nx = z * ny + y" using assms by simp
  show "(((z * ny + y) * nx + x) div nx) mod ny = y" using assms dv by simp
  have "((z * ny + y) * nx + x) div (ny * nx) = (((z * ny + y) * nx + x) div nx) div ny"
    by (simp add: div_mult2_eq mult.commute)
  then show "((z * ny + y) * nx + x) div (ny * nx) = z" using assms dv by simp
qed

lemma flat_index_encode:
  assumes "i < nz * ny * (nx::nat)"
  shows "i mod nx < nx" "(i div nx) mod ny < ny" "i div (ny * nx) < nz"
    and "((i div (ny * nx)) * ny + (i div nx) mod ny) * nx + i mod nx = i"
proof -
  have nx: "0 < nx" and ny: "0 < ny" using assms by (cases nx; cases ny; simp)+
  show "i mod nx < nx" using nx by simp
  show "(i div nx) mod ny < ny" using ny by simp
  show "i div (ny * nx) < nz" using assms nx ny
    by (simp add: less_mult_imp_div_less mult.assoc)
  have "i div (ny * nx) = (i div nx) div ny" by (simp add: div_mult2_eq mult.commute)
  then show "((i div (ny * nx)) * ny + (i div nx) mod ny) * nx + i mod nx = i" by simp
qed

lemma projections_by_index:
  assumes len: "length es = nz * ny * nx"
  shows "set (map (projection ny nx (ux, uy, uz, u)) (where_above es t))
         = {(real x * ux + real y * uy + real z * uz) / u | z y x.
              z < nz \<and> y < ny \<and> x < nx \<and> t \<le> cmod (es ! ((z * ny + y) * nx + x))}"
    (is "?A = ?B")
proof
  show "?A \<subseteq> ?B"
  proof
    fix p assume "p \<in> ?A"
    then obtain i where i: "i < length es" "t \<le> cmod (es ! i)"
      and p: "p = projection ny nx (ux, uy, uz, u) i"
      by (auto simp: where_above_def)
    from i(1) len have il: "i < nz * ny * nx" by simp
    note e = flat_index_encode [OF il]
    have "p = (real (i mod nx) * ux + real ((i div nx) mod ny) * uy + real (i div (ny * nx)) * uz) / u"
      using p by (simp add: projection_def)
    moreover have "t \<le> cmod (es ! (((i div (ny * nx)) * ny + (i div nx) mod ny) * nx + i mod nx))"
      using i(2) e(4) by simp
    ultimately show "p \<in> ?B" using e(1,2,3) by blast
  qed
  show "?B \<subseteq> ?A"
  proof
    fix p assume "p \<in> ?B"
    then obtain z y x where b: "z < nz" "y < ny" "x < nx"
      and t: "t \<le> cmod (es ! ((z * ny + y) * nx + x))"
      and p: "p = (real x * ux + real y * uy + real z * uz) / u" by blast
    let ?i = "(z * ny + y) * nx + x"
    have il: "?i < length es" using flat_index_less [OF b] len by simp
    have mem: "?i \<in> set (where_above es t)" using il t by (simp add: where_above_def)
    have "projection ny nx (ux, uy, uz, u) ?i = p"
      using flat_index_decode [OF b(2,3), of z] p by (simp add: projection_def)
    then show "p \<in> ?A" using mem by force
  qed
qed

lemma clip_normal_explicit:
  "clip_normal ux uy uz
   = (if sqrt (ux\<^sup>2 + uy\<^sup>2 + uz\<^sup>2) \<le> 1 / 10 ^ 8 then 1 else ux, uy, uz,
      if sqrt (ux\<^sup>2 + uy\<^sup>2 + uz\<^sup>2) \<le> 1 / 10 ^ 8 then 1 else sqrt (ux\<^sup>2 + uy\<^sup>2 + uz\<^sup>2))"
proof -
  have "0 \<le> sqrt (ux\<^sup>2 + uy\<^sup>2 + uz\<^sup>2)" by simp
  then show ?thesis by (simp add: clip_normal_def isclose_def Let_def)
qed

lemma clip_branch_runs:
  assumes plane: "toggle_plane w"
    and sh: "shape (d w) = [nz, ny, nx]"
    and ok: "slider_ok (clipdist w)"
    and ne: "where_above (elems (d w)) (threshold w) \<noteq> []"
  shows "\<exists>s1 s2 w' c.
           (let P = set (map (projection ny nx (clip_normal (clipx w) (clipy w) (clipz w)))
                           (where_above (elems (d w)) (threshold w)));
                lo = Min P - 1;
                hi = Max P + 1
            in (if hi > rmin (clipdist w)
                then set_max (clipdist w) hi = Inr s1 \<and> set_min s1 lo = Inr s2
                else set_min (clipdist w) lo = Inr s1 \<and> set_max s1 hi = Inr s2)
               \<and> slider_ok s1 \<and> slider_ok s2 \<and> rmin s2 = lo \<and> rmax s2 = hi)
           \<and> clipdist w' = s2 \<and> meshes w' = meshes w \<and> printed w' = printed w
           \<and> threshold w' = threshold w
           \<and> on_update_plot L (Some ''value'') w
             = ((try_mesh L w' (masked_volume (d w') (Some c)))\<lparr>observing := True, progress := 10\<rparr>, None)
           \<and> on_update_plot L None w
             = ((try_mesh L w' (masked_volume (d w') (Some c)))\<lparr>observing := True, progress := 10\<rparr>, None)"
    (is "\<exists>s1 s2 w' c. ?P s1 s2 w' c")
proof -
  let ?tmp = "map (projection ny nx (clip_normal (clipx w) (clipy w) (clipz w)))
                (where_above (elems (d w)) (threshold w))"
  let ?lo = "Min (set ?tmp) - 1"
  let ?hi = "Max (set ?tmp) + 1"
  have tne: "?tmp \<noteq> []" using ne by simp
  have "Min (set ?tmp) \<le> Max (set ?tmp)" by (rule Min_le_Max_list [OF tne])
  then have le: "?lo \<le> ?hi" by linarith
  from fit_steps [OF ok le] obtain s1 s2 where
    steps: "if ?hi > rmin (clipdist w)
            then set_max (clipdist w) ?hi = Inr s1 \<and> set_min s1 ?lo = Inr s2
            else set_min (clipdist w) ?lo = Inr s1 \<and> set_max s1 ?hi = Inr s2"
    and f1: "fit_first (clipdist w) ?lo ?hi = Inr s1"
    and f2: "fit_clipdist (clipdist w) ?lo ?hi = Inr s2"
    and oks: "slider_ok s1" "slider_ok s2" "rmin s2 = ?lo" "rmax s2 = ?hi"
    by blast
  let ?w0 = "w\<lparr>progress := 7, observing := False\<rparr>"
  have mn: "np_min ?tmp = Inr (Min (set ?tmp))" by (rule np_min_Min [OF tne])
  have mx: "np_max ?tmp = Inr (Max (set ?tmp))" by (rule np_max_Max [OF tne])
  obtain w' r where cbr: "clip_branch L ?w0 = (w', r)" by (cases "clip_branch L ?w0")
  have "\<exists>c. r = Inr c \<and> clipdist w' = s2 \<and> meshes w' = meshes w \<and> printed w' = printed w
             \<and> threshold w' = threshold w"
    using cbr sh mn mx f1 f2 unfolding clip_branch_def Let_def
    by (auto split: prod.splits)
  then obtain c where r: "r = Inr c" and cd: "clipdist w' = s2" and ms: "meshes w' = meshes w"
    and pr: "printed w' = printed w" and th: "threshold w' = threshold w" by blast
  have run1: "on_update_plot L (Some ''value'') w
             = ((try_mesh L w' (masked_volume (d w') (Some c)))\<lparr>observing := True, progress := 10\<rparr>, None)"
    using plane cbr r by (simp add: on_update_plot_def Let_def)
  have run2: "on_update_plot L None w
             = ((try_mesh L w' (masked_volume (d w') (Some c)))\<lparr>observing := True, progress := 10\<rparr>, None)"
    using plane cbr r by (simp add: on_update_plot_def Let_def)
  have "?P s1 s2 w' c"
    unfolding Let_def using steps oks cd ms pr th run1 run2 by blast
  then show ?thesis by blast
qed

lemma on_update_plot_run:
  assumes "v = None \<or> v = Some ''value''"
   and "toggle_plane w \<longrightarrow>
           (\<exists>nz ny nx. shape (d w) = [nz, ny, nx]) \<and> slider_ok (clipdist w)
           \<and> (\<exists>i<length (elems (d w)). threshold w \<le> cmod (elems (d w) ! i))"
  shows "\<exists>w' m. on_update_plot L v w = ((try_mesh L w' m)\<lparr>observing := True, progress := 10\<rparr>, None)
           \<and> meshes w' = meshes w \<and> printed w' = printed w \<and> threshold w' = threshold w"
proof (cases "toggle_plane w")
  case True
  with assms(2) obtain nz ny nx i where sh: "shape (d w) = [nz, ny, nx]"
    and ok: "slider_ok (clipdist w)"
    and i: "i < length (elems (d w))" "threshold w \<le> cmod (elems (d w) ! i)" by blast
  have ne: "where_above (elems (d w)) (threshold w) \<noteq> []" by (rule where_above_nonempty [OF i])
  from clip_branch_runs [OF True sh ok ne, of L] assms(1) show ?thesis by metis
next
  case False
  then show ?thesis using assms(1) by (auto simp: on_update_plot_def Let_def)
qed

lemma sample_norm: "sqrt ((3 / 10)\<^sup>2 + (4 / 10)\<^sup>2 + 0\<^sup>2) = (1 / 2 :: real)"
proof -
  have "(3 / 10)\<^sup>2 + (4 / 10)\<^sup>2 + 0\<^sup>2 = ((1 / 2)\<^sup>2 :: real)" by (simp add: power2_eq_square)
  then show ?thesis by (metis real_sqrt_abs abs_of_nonneg half_gt_zero_iff less_eq_real_def zero_less_one)
qed

lemma sample_projections:
  "{(real x * (3 / 10) + real y * (4 / 10) + real z * 0) / (1 / 2) | z y x.
      z < 1 \<and> y < 2 \<and> x < 2
      \<and> 2 \<le> cmod ([1, 3, 3, 1] ! ((z * 2 + y) * 2 + x))} = {3 / 5, 4 / 5 :: real}"
  (is "?A = ?B")
proof
  show "?A \<subseteq> ?B"
  proof
    fix p assume "p \<in> ?A"
    then obtain z y x :: nat where b: "z < 1" "y < 2" "x < 2"
      and t: "2 \<le> cmod ([1, 3, 3, 1] ! ((z * 2 + y) * 2 + x))"
      and p: "p = (real x * (3 / 10) + real y * (4 / 10) + real z * 0) / (1 / 2)" by blast
    from b have "z = 0" "y = 0 \<or> y = 1" "x = 0 \<or> x = 1" by auto
    then show "p \<in> ?B" using t p by auto
  qed
  show "?B \<subseteq> ?A"
  proof
    fix p :: real assume "p \<in> ?B"
    then consider "p = 3 / 5" | "p = 4 / 5" by auto
    then show "p \<in> ?A"
    proof cases
      case 1
      have "p = (real 1 * (3 / 10) + real 0 * (4 / 10) + real 0 * 0) / (1 / 2)
            \<and> (0::nat) < 1 \<and> (0::nat) < 2 \<and> (1::nat) < 2
            \<and> 2 \<le> cmod ([1, 3, 3, 1] ! ((0 * 2 + 0) * 2 + 1))" using 1 by simp
      then show ?thesis by blast
    next
      case 2
      have "p = (real 0 * (3 / 10) + real 1 * (4 / 10) + real 0 * 0) / (1 / 2)
            \<and> (0::nat) < 1 \<and> (1::nat) < 2 \<and> (0::nat) < 2
            \<and> 2 \<le> cmod ([1, 3, 3, 1] ! ((0 * 2 + 1) * 2 + 0))" using 2 by simp
      then show ?thesis by blast
    qed
  qed
qed

text \<open>
  Claim C8.  With clipping enabled, on a volume of shape \<open>(nz, ny, nx)\<close> stored in row-major
  order, with at least one voxel whose magnitude reaches the threshold and a slider whose
  bounds and values are in order, a value change sets the bounds of the clip-distance
  slider to the least projection minus one and the greatest plus one.  The projections
  are those of the grid points \<open>(z, y, x)\<close> of the selected voxels on the clip normal,
  \<open>(x * ux + y * uy + z * uz) / u\<close>, where \<open>u\<close> is the norm of the normal and a normal of
  norm at most \<open>1e-8\<close> is replaced by \<open>ux = 1\<close>, \<open>u = 1\<close>.  The maximum is assigned first
  when it lies above the old minimum, the minimum first otherwise; both assignments are
  accepted, and after each of them the slider has \<open>min \<le> max\<close> with both current values
  inside.
\<close>

theorem clip_bounds_fit:
  assumes plane: "toggle_plane w"
    and sh: "shape (d w) = [nz, ny, nx]"
    and len: "length (elems (d w)) = nz * ny * nx"
    and ok: "slider_ok (clipdist w)"
    and ne: "\<exists>z<nz. \<exists>y<ny. \<exists>x<nx. threshold w \<le> cmod (elems (d w) ! ((z * ny + y) * nx + x))"
  shows "\<exists>s1 s2.
           (let n = sqrt ((clipx w)\<^sup>2 + (clipy w)\<^sup>2 + (clipz w)\<^sup>2);
                ux = (if n \<le> 1 / 10 ^ 8 then 1 else clipx w);
                u = (if n \<le> 1 / 10 ^ 8 then 1 else n);
                P = {(real x * ux + real y * clipy w + real z * clipz w) / u | z y x.
                       z < nz \<and> y < ny \<and> x < nx
                       \<and> threshold w \<le> cmod (elems (d w) ! ((z * ny + y) * nx + x))};
                lo = Min P - 1;
                hi = Max P + 1
            in (if hi > rmin (clipdist w)
                then set_max (clipdist w) hi = Inr s1 \<and> set_min s1 lo = Inr s2
                else set_min (clipdist w) lo = Inr s1 \<and> set_max s1 hi = Inr s2)
               \<and> slider_ok s1 \<and> slider_ok s2 \<and> rmin s2 = lo \<and> rmax s2 = hi)
           \<and> clipdist (fst (on_update_plot L (Some ''value'') w)) = s2
           \<and> snd (on_update_plot L (Some ''value'') w) = None"
proof -
  from ne obtain z y x where b: "z < nz" "y < ny" "x < nx"
    and t: "threshold w \<le> cmod (elems (d w) ! ((z * ny + y) * nx + x))" by blast
  have "(z * ny + y) * nx + x \<in> set (where_above (elems (d w)) (threshold w))"
    using flat_index_less [OF b] len t by (simp add: where_above_def)
  then have ne': "where_above (elems (d w)) (threshold w) \<noteq> []" by auto
  from clip_branch_runs [OF plane sh ok ne', of L] obtain s1 s2 w' c where
    st: "(let P = set (map (projection ny nx (clip_normal (clipx w) (clipy w) (clipz w)))
                           (where_above (elems (d w)) (threshold w)));
                lo = Min P - 1;
                hi = Max P + 1
            in (if hi > rmin (clipdist w)
                then set_max (clipdist w) hi = Inr s1 \<and> set_min s1 lo = Inr s2
                else set_min (clipdist w) lo = Inr s1 \<and> set_max s1 hi = Inr s2)
               \<and> slider_ok s1 \<and> slider_ok s2 \<and> rmin s2 = lo \<and> rmax s2 = hi)"
    and cd: "clipdist w' = s2"
    and run: "on_update_plot L (Some ''value'') w
             = ((try_mesh L w' (masked_volume (d w') (Some c)))\<lparr>observing := True, progress := 10\<rparr>, None)"
    by blast
  have fin: "clipdist (fst (on_update_plot L (Some ''value'') w)) = s2"
      "snd (on_update_plot L (Some ''value'') w) = None"
    using run cd by (simp_all add: try_mesh_clipdist)
  have Peq: "set (map (projection ny nx (clip_normal (clipx w) (clipy w) (clipz w)))
                  (where_above (elems (d w)) (threshold w)))
             = {(real x * (if sqrt ((clipx w)\<^sup>2 + (clipy w)\<^sup>2 + (clipz w)\<^sup>2) \<le> 1 / 10 ^ 8
                           then 1 else clipx w)
                 + real y * clipy w + real z * clipz w)
                / (if sqrt ((clipx w)\<^sup>2 + (clipy w)\<^sup>2 + (clipz w)\<^sup>2) \<le> 1 / 10 ^ 8
                   then 1 else sqrt ((clipx w)\<^sup>2 + (clipy w)\<^sup>2 + (clipz w)\<^sup>2)) | z y x.
                  z < nz \<and> y < ny \<and> x < nx
                  \<and> threshold w \<le> cmod (elems (d w) ! ((z * ny + y) * nx + x))}"
    unfolding clip_normal_explicit by (rule projections_by_index [OF len])
  from st have st': "(if Max (set (map (projection ny nx (clip_normal (clipx w) (clipy w) (clipz w)))
                  (where_above (elems (d w)) (threshold w)))) + 1 > rmin (clipdist w)
                then set_max (clipdist w) (Max (set (map (projection ny nx (clip_normal (clipx w) (clipy w) (clipz w)))
                  (where_above (elems (d w)) (threshold w)))) + 1) = Inr s1 \<and> set_min s1 (Min (set (map (projection ny nx (clip_normal (clipx w) (clipy w) (clipz w)))
                  (where_above (elems (d w)) (threshold w)))) - 1) = Inr s2
                else set_min (clipdist w) (Min (set (map (projection ny nx (clip_normal (clipx w) (clipy w) (clipz w)))
                  (where_above (elems (d w)) (threshold w)))) - 1) = Inr s1 \<and> set_max s1 (Max (set (map (projection ny nx (clip_normal (clipx w) (clipy w) (clipz w)))
                  (where_above (elems (d w)) (threshold w)))) + 1) = Inr s2)
               \<and> slider_ok s1 \<and> slider_ok s2 \<and> rmin s2 = Min (set (map (projection ny nx (clip_normal (clipx w) (clipy w) (clipz w)))
                  (where_above (elems (d w)) (threshold w)))) - 1 \<and> rmax s2 = Max (set (map (projection ny nx (clip_normal (clipx w) (clipy w) (clipz w)))
                  (where_above (elems (d w)) (threshold w)))) + 1"
    unfolding Let_def .
  show ?thesis
    unfolding Let_def
    apply (rule exI [of _ s1], rule exI [of _ s2])
    apply (rule conjI)
     apply (rule st' [unfolded Peq])
    apply (rule conjI)
     apply (rule fin(1))
    apply (rule fin(2))
    done
qed

theorem clip_bounds_fit_witness:
  "toggle_plane sample_viewer \<and> shape (d sample_viewer) = [1, 2, 2]
   \<and> length (elems (d sample_viewer)) = 1 * 2 * 2
   \<and> slider_ok (clipdist sample_viewer)
   \<and> (\<exists>z<1. \<exists>y<2. \<exists>x<2. threshold sample_viewer
                           \<le> cmod (elems (d sample_viewer) ! ((z * 2 + y) * 2 + x)))
   \<and> rmin (clipdist (fst (on_update_plot sample_libs (Some ''value'') sample_viewer))) = - (2 / 5)
   \<and> rmax (clipdist (fst (on_update_plot sample_libs (Some ''value'') sample_viewer))) = 9 / 5
   \<and> snd (on_update_plot sample_libs (Some ''value'') sample_viewer) = None"
proof -
  have h1: "toggle_plane sample_viewer" by (simp add: sample_viewer_def)
  have h2: "shape (d sample_viewer) = [1, 2, 2]" by (simp add: sample_viewer_def)
  have h3: "length (elems (d sample_viewer)) = 1 * 2 * 2" by (simp add: sample_viewer_def)
  have h4: "slider_ok (clipdist sample_viewer)" by (simp add: sample_viewer_def slider_ok_def)
  have "(0::nat) < 1 \<and> (0::nat) < 2 \<and> (1::nat) < 2
        \<and> threshold sample_viewer \<le> cmod (elems (d sample_viewer) ! ((0 * 2 + 0) * 2 + 1))"
    by (simp add: sample_viewer_def)
  then have h5: "\<exists>z<1. \<exists>y<2. \<exists>x<2. threshold sample_viewer
                           \<le> cmod (elems (d sample_viewer) ! ((z * 2 + y) * 2 + x))"
    by blast
  have v: "clipx sample_viewer = 3 / 10" "clipy sample_viewer = 4 / 10" "clipz sample_viewer = 0"
    "threshold sample_viewer = 2" "elems (d sample_viewer) = [1, 3, 3, 1]"
    by (simp_all add: sample_viewer_def)
  have n: "sqrt ((3 / 10)\<^sup>2 + (2 / 5)\<^sup>2) = (1 / 2 :: real)" using sample_norm by simp
  from clip_bounds_fit [OF h1 h2 h3 h4 h5, of sample_libs]
  have "rmin (clipdist (fst (on_update_plot sample_libs (Some ''value'') sample_viewer))) = - (2 / 5)
   \<and> rmax (clipdist (fst (on_update_plot sample_libs (Some ''value'') sample_viewer))) = 9 / 5
   \<and> snd (on_update_plot sample_libs (Some ''value'') sample_viewer) = None"
    unfolding Let_def v sample_norm
    using sample_projections by auto
  with h1 h2 h3 h4 h5 show ?thesis by blast
qed

text \<open>
  Claim C7, amended.  \<open>set_data\<close> binds a 3D volume and pins the maximum of the threshold
  slider to the greatest magnitude of the volume, so in every state the controls reach
  some voxel reaches the threshold whenever clipping is enabled.  In such a state the
  observer never raises: either the change is not one of a value and nothing happens, or
  a new mesh replaces the meshes and nothing is printed, or an exception of the \<open>try\<close>
  block is printed and the meshes stay as they were; the last is what happens when the
  surface extraction fails.
\<close>

theorem on_update_plot_never_raises:
  assumes "toggle_plane w \<longrightarrow>
           (\<exists>nz ny nx. shape (d w) = [nz, ny, nx]) \<and> slider_ok (clipdist w)
           \<and> (\<exists>i<length (elems (d w)). threshold w \<le> cmod (elems (d w) ! i))"
  shows "snd (on_update_plot L v w) = None
         \<and> (fst (on_update_plot L v w) = w
            \<or> (\<exists>mesh. meshes (fst (on_update_plot L v w)) = [mesh]
                       \<and> printed (fst (on_update_plot L v w)) = printed w)
            \<or> (\<exists>ex. meshes (fst (on_update_plot L v w)) = meshes w
                     \<and> printed (fst (on_update_plot L v w)) = printed w @ [ex]))
         \<and> ((v = None \<or> v = Some ''value'') \<longrightarrow>
              (\<forall>ex. (\<forall>a. marching_cubes L a (threshold w) = Inl ex) \<longrightarrow>
                 meshes (fst (on_update_plot L v w)) = meshes w
                 \<and> printed (fst (on_update_plot L v w)) = printed w @ [ex]))"
proof (cases "v = None \<or> v = Some ''value''")
  case False
  then have "on_update_plot L v w = (w, None)" by (simp add: on_update_plot_def)
  with False show ?thesis by auto
next
  case True
  from on_update_plot_run [OF True assms, of L] obtain w' m where
    run: "on_update_plot L v w = ((try_mesh L w' m)\<lparr>observing := True, progress := 10\<rparr>, None)"
    and keep: "meshes w' = meshes w" "printed w' = printed w" "threshold w' = threshold w" by blast
  have a: "snd (on_update_plot L v w) = None" using run by simp
  have b: "(\<exists>mesh. meshes (fst (on_update_plot L v w)) = [mesh]
                       \<and> printed (fst (on_update_plot L v w)) = printed w)
            \<or> (\<exists>ex. meshes (fst (on_update_plot L v w)) = meshes w
                     \<and> printed (fst (on_update_plot L v w)) = printed w @ [ex])"
    using try_mesh_result [of L w' m] run keep by simp
  have c: "meshes (fst (on_update_plot L v w)) = meshes w
           \<and> printed (fst (on_update_plot L v w)) = printed w @ [ex]"
    if "\<forall>a. marching_cubes L a (threshold w) = Inl ex" for ex
  proof -
    have "marching_cubes L m (threshold w') = Inl ex" using that keep(3) by simp
    from try_mesh_caught [OF this] show ?thesis using run keep by simp
  qed
  show ?thesis using a b c by blast
qed

theorem on_update_plot_never_raises_witness:
  "toggle_plane sample_viewer
   \<and> shape (d sample_viewer) = [1, 2, 2] \<and> slider_ok (clipdist sample_viewer)
   \<and> 1 < length (elems (d sample_viewer))
   \<and> threshold sample_viewer \<le> cmod (elems (d sample_viewer) ! 1)
   \<and> snd (on_update_plot sample_libs (Some ''value'') sample_viewer) = None
   \<and> meshes (fst (on_update_plot sample_libs (Some ''value'') sample_viewer)) = []
   \<and> printed (fst (on_update_plot sample_libs (Some ''value'') sample_viewer)) = [ValueError]"
proof -
  have h0: "toggle_plane sample_viewer" "shape (d sample_viewer) = [1, 2, 2]"
    "slider_ok (clipdist sample_viewer)"
    by (simp_all add: sample_viewer_def slider_ok_def)
  have h1: "(1::nat) < length (elems (d sample_viewer))
        \<and> threshold sample_viewer \<le> cmod (elems (d sample_viewer) ! 1)"
    by (simp add: sample_viewer_def)
  then have h: "toggle_plane sample_viewer \<longrightarrow>
           (\<exists>nz ny nx. shape (d sample_viewer) = [nz, ny, nx]) \<and> slider_ok (clipdist sample_viewer)
           \<and> (\<exists>i<length (elems (d sample_viewer)). threshold sample_viewer \<le> cmod (elems (d sample_viewer) ! i))"
    using h0 by blast
  have m: "\<forall>a. marching_cubes sample_libs a (threshold sample_viewer) = Inl ValueError"
    by (simp add: sample_libs_def)
  have p: "meshes sample_viewer = []" "printed sample_viewer = []" by (simp_all add: sample_viewer_def)
  from on_update_plot_never_raises [OF h, of sample_libs "Some ''value''"] m p
  have "snd (on_update_plot sample_libs (Some ''value'') sample_viewer) = None
   \<and> meshes (fst (on_update_plot sample_libs (Some ''value'') sample_viewer)) = []
   \<and> printed (fst (on_update_plot sample_libs (Some ''value'') sample_viewer)) = [ValueError]"
    by simp
  with h0 h1 show ?thesis by blast
qed

text \<open>
  Claim C7 as stated fails when the threshold lies above every magnitude of the volume,
  a state that needs the threshold or the data rewritten from outside the viewer: with
  clipping enabled the selection of voxels is empty, \<open>tmp.min()\<close> raises \<open>ValueError\<close>
  before the \<open>try\<close> block is reached, and the exception leaves the observer; the
  progress bar stays at 7 and the clip sliders stay without observer.
\<close>

theorem on_update_plot_above_max:
  "on_update_plot sample_libs (Some ''value'') (sample_viewer\<lparr>threshold := 4\<rparr>)
   = (sample_viewer\<lparr>threshold := 4, progress := 7, observing := False, clips_disabled := False\<rparr>,
      Some ValueError)"
  by (simp add: on_update_plot_def clip_branch_def Let_def where_above_def np_min_def
      sample_viewer_def upt_rec)

section \<open>Properties of the data loader\<close>


lemma endswith_last:
  assumes "endswith s suf" and "suf \<noteq> []"
  shows "last s = last suf"
proof -
  from assms have len: "length suf \<le> length s" and eq: "drop (length s - length suf) s = suf"
    by (simp_all add: endswith_def)
  from assms(2) len have "length s - length suf < length s" by (cases suf) auto
  then have "last (drop (length s - length suf) s) = last s" by (rule last_drop)
  with eq show ?thesis by simp
qed

lemma h5_not_npy: "endswith s ''.h5'' \<Longrightarrow> \<not> endswith s ''.npy''"
  using endswith_last [of s "''.h5''"] endswith_last [of s "''.npy''"] by auto

lemma h5_not_cxi: "endswith s ''.h5'' \<Longrightarrow> \<not> endswith s ''.cxi''"
  using endswith_last [of s "''.h5''"] endswith_last [of s "''.cxi''"] by auto

lemma cxi_not_npy: "endswith s ''.cxi'' \<Longrightarrow> \<not> endswith s ''.npy''"
  using endswith_last [of s "''.cxi''"] endswith_last [of s "''.npy''"] by auto

lemma concat_blocks_length:
  assumes "\<And>i. i < n \<Longrightarrow> length (f i) = m"
  shows "length (concat (map f [0..<n])) = n * m"
  using assms by (induction n) simp_all

lemma concat_blocks_nth:
  assumes len: "\<And>i. i < n \<Longrightarrow> length (f i) = m" and "i < n" and "j < m"
  shows "concat (map f [0..<n]) ! (i * m + j) = f i ! j"
  using assms
proof (induction n)
  case 0
  then show ?case by simp
next
  case (Suc n)
  have l: "length (concat (map f [0..<n])) = n * m"
    by (rule concat_blocks_length) (simp add: Suc.prems(1))
  show ?case
  proof (cases "i < n")
    case True
    then have "i * m + j < n * m" using Suc.prems(3) by (rule block_index_less)
    then show ?thesis using Suc.IH [OF _ True Suc.prems(3)] Suc.prems(1) l
      by (simp add: nth_append)
  next
    case False
    then have "i = n" using Suc.prems(2) by simp
    then show ?thesis using l by (simp add: nth_append)
  qed
qed

lemma swapaxes02_3d:
  assumes sh: "shape b = [s1, s2, s3]" and len: "length (elems b) = s1 * s2 * s3"
  shows "\<exists>c. swapaxes02 b = Inr c \<and> shape c = [s3, s2, s1] \<and> length (elems c) = s3 * s2 * s1
            \<and> (\<forall>k<s3. \<forall>j<s2. \<forall>i<s1. at3 c k j i = at3 b i j k)"
proof -
  let ?cell = "\<lambda>k j i. take 1 (drop ((i * s2 + j) * s3 + k) (elems b))"
  let ?row = "\<lambda>k j. concat (map (?cell k j) [0..<s1])"
  let ?plane = "\<lambda>k. concat (map (?row k) [0..<s2])"
  let ?c = "\<lparr>shape = [s3, s2, s1], elems = concat (map ?plane [0..<s3])\<rparr>"
  have sw: "swapaxes02 b = Inr ?c" using sh by (simp add: swapaxes02_def)
  have idx: "(i * s2 + j) * s3 + k < s1 * s2 * s3" if "i < s1" "j < s2" "k < s3" for i j k
  proof -
    have "i * s2 + j < s1 * s2" using that(1,2) by (rule block_index_less)
    then show ?thesis using that(3) by (rule block_index_less)
  qed
  have cell: "?cell k j i = [elems b ! ((i * s2 + j) * s3 + k)]" if "i < s1" "j < s2" "k < s3" for i j k
  proof -
    have "(i * s2 + j) * s3 + k < length (elems b)" using idx [OF that] len by simp
    then show ?thesis by (simp add: take_Suc_conv_app_nth [where i = 0, simplified] Cons_nth_drop_Suc [symmetric])
  qed
  have lcell: "length (?cell k j i) = 1" if "i < s1" "j < s2" "k < s3" for i j k
    using cell [OF that] by simp
  have lrow: "length (?row k j) = s1" if "j < s2" "k < s3" for j k
    using concat_blocks_length [of s1 "?cell k j" 1] lcell that by simp
  have lplane: "length (?plane k) = s2 * s1" if "k < s3" for k
    using concat_blocks_length [of s2 "?row k" s1] lrow that by simp
  have ltot: "length (concat (map ?plane [0..<s3])) = s3 * s2 * s1"
    using concat_blocks_length [of s3 ?plane "s2 * s1"] lplane by (simp add: mult.assoc)
  have el: "at3 ?c k j i = at3 b i j k" if "k < s3" "j < s2" "i < s1" for k j i
  proof -
    have ji: "j * s1 + i < s2 * s1" using that(2,3) by (rule block_index_less)
    have "at3 ?c k j i = concat (map ?plane [0..<s3]) ! (k * (s2 * s1) + (j * s1 + i))"
      by (simp add: at3_def algebra_simps)
    also have "\<dots> = ?plane k ! (j * s1 + i)"
      by (rule concat_blocks_nth) (use lplane that(1) ji in simp_all)
    also have "\<dots> = ?row k j ! (i * 1 + 0)"
      using concat_blocks_nth [of s2 "?row k" s1 j i] lrow that by simp
    also have "\<dots> = ?cell k j i ! 0"
      by (rule concat_blocks_nth) (use lcell that in simp_all)
    also have "\<dots> = elems b ! ((i * s2 + j) * s3 + k)"
      using cell [OF that(3) that(2) that(1)] by simp
    also have "\<dots> = at3 b i j k" using sh by (simp add: at3_def)
    finally show ?thesis .
  qed
  show ?thesis using sw ltot el by (intro exI [of _ ?c]) simp
qed


lemma get_data_array_h5:
  assumes "endswith (filename p) ''.h5''"
  shows "get_data_array rd p
         = (fst (load_h5 rd p), snd (load_h5 rd p) @ fst (plot_dispatch (fst (load_h5 rd p))),
            snd (plot_dispatch (fst (load_h5 rd p))))"
  using assms h5_not_npy [OF assms] h5_not_cxi [OF assms]
  by (simp add: get_data_array_def Let_def split: prod.splits)

text \<open>
  Claim C3, amended.  For a 4D array of shape \<open>(s0, s1, s2, s3)\<close> with a non-empty
  leading axis, read from the dataset of an \<open>.h5\<close> file, the loader binds \<open>data_array\<close> to
  the 3D array of shape \<open>(s3, s2, s1)\<close> whose element \<open>(i, j, k)\<close> is the element
  \<open>(0, k, j, i)\<close> of the input: axis 0 is dropped by taking its first entry, then axes 0
  and 2 are swapped.
\<close>

theorem h5_4d_collapse_swap:
  assumes ext: "endswith (filename p) ''.h5''"
    and rd: "h5_read rd (filename p) = Inr a"
    and sh: "shape a = [s0, s1, s2, s3]"
    and wf: "wf_array a"
    and ne: "0 < s0"
  shows "\<exists>b. data_array (fst (get_data_array rd p)) = Some b \<and> shape b = [s3, s2, s1]
            \<and> wf_array b \<and> (\<forall>i<s3. \<forall>j<s2. \<forall>k<s1. at3 b i j k = at4 a 0 k j i)"
proof -
  let ?a0 = "\<lparr>shape = [s1, s2, s3], elems = take (s1 * s2 * s3) (elems a)\<rparr>"
  have i0: "index0 a = Inr ?a0" using sh ne by (simp add: index0_def mult.assoc)
  have "length (elems a) = s0 * (s1 * (s2 * s3))" using wf sh by (simp add: wf_array_def)
  moreover have "s1 * (s2 * s3) \<le> s0 * (s1 * (s2 * s3))" using ne by simp
  ultimately have l0: "length (elems ?a0) = s1 * s2 * s3" by (simp add: mult.assoc)
  from swapaxes02_3d [of ?a0 s1 s2 s3] l0 obtain c where
    sw: "swapaxes02 ?a0 = Inr c" and shc: "shape c = [s3, s2, s1]"
    and lc: "length (elems c) = s3 * s2 * s1"
    and el: "\<forall>k<s3. \<forall>j<s2. \<forall>i<s1. at3 c k j i = at3 ?a0 i j k"
    by auto
  have ld: "fst (load_h5 rd p) = p\<lparr>data_array := Some c\<rparr>"
    using rd sh i0 sw by (simp add: load_h5_def ndim_def Let_def)
  have da: "data_array (fst (get_data_array rd p)) = Some c"
    using get_data_array_h5 [OF ext, of rd] ld by simp
  have wfc: "wf_array c" using shc lc by (simp add: wf_array_def mult.assoc)
  have "at3 c i j k = at4 a 0 k j i" if "i < s3" "j < s2" "k < s1" for i j k
  proof -
    have "(k * s2 + j) * s3 + i < s1 * s2 * s3"
      by (intro block_index_less that)
    then have "at3 ?a0 k j i = at4 a 0 k j i" using sh by (simp add: at3_def at4_def)
    with el that show ?thesis by simp
  qed
  with da shc wfc show ?thesis by blast
qed

theorem h5_4d_collapse_swap_witness:
  "endswith (filename (fresh_plotter ''scan.h5'' :: nat plotter)) ''.h5''
   \<and> h5_read (h5_holding sample_4d) (filename (fresh_plotter ''scan.h5'' :: nat plotter))
       = Inr sample_4d
   \<and> shape sample_4d = [1, 2, 3, 4] \<and> wf_array sample_4d \<and> (0::nat) < 1
   \<and> map_option shape (data_array (fst (get_data_array (h5_holding sample_4d)
                                           (fresh_plotter ''scan.h5'')))) = Some [4, 3, 2]"
proof -
  have h1: "endswith (filename (fresh_plotter ''scan.h5'' :: nat plotter)) ''.h5''"
    by (simp add: fresh_plotter_def endswith_def)
  have h2: "h5_read (h5_holding sample_4d) (filename (fresh_plotter ''scan.h5'' :: nat plotter))
            = Inr sample_4d"
    by (simp add: h5_holding_def)
  have h3: "shape sample_4d = [1, 2, 3, 4]" by (simp add: sample_4d_def)
  have h4: "wf_array sample_4d" by (simp add: sample_4d_def wf_array_def)
  have h5: "(0::nat) < 1" by simp
  from h5_4d_collapse_swap [OF h1 h2 h3 h4 h5]
  have "map_option shape (data_array (fst (get_data_array (h5_holding sample_4d)
                                             (fresh_plotter ''scan.h5'')))) = Some [4, 3, 2]"
    by auto
  with h1 h2 h3 h4 h5 show ?thesis by simp
qed

text \<open>
  Claim C3 as stated fails on a 4D array with an empty leading axis: \<open>data_array[0]\<close>
  raises \<open>IndexError\<close>, the handler prints the message, and \<open>data_array\<close> stays bound
  to the 4D array.
\<close>

theorem h5_empty_leading_axis_counterexample:
  "get_data_array (h5_holding \<lparr>shape = [0, 2, 3, 4], elems = ([] :: nat list)\<rparr>)
     (fresh_plotter ''scan.h5'')
   = (\<lparr>filename = ''scan.h5'', plot = None, log_flag = False,
        data_array = Some \<lparr>shape = [0, 2, 3, 4], elems = []\<rparr>\<rparr>,
      [Printed hdf5_message, Printed hash_line, Printed ''Loaded data array from scan.h5'',
       Printed (CHR 0x09 # ''Nb of dimensions: 4''),
       Printed (CHR 0x09 # ''Shape: (0, 2, 3, 4)''), Printed hash_line],
      None)"
  by (simp add: get_data_array_def load_h5_def h5_holding_def fresh_plotter_def endswith_def
      index0_def ndim_def plot_dispatch_def repr_shape_def digit_char_def Let_def)


lemma npz_not_others:
  assumes "endswith s ''.npz''"
  shows "\<not> endswith s ''.npy''" "\<not> endswith s ''.h5''" "\<not> endswith s ''.cxi''"
  using endswith_last [of s "''.npz''"] endswith_last [of s "''.npy''"]
    endswith_last [of s "''.h5''"] endswith_last [of s "''.cxi''"] assms
  by auto

lemma plot_dispatch_bound:
  assumes "data_array p \<noteq> None"
  shows "snd (plot_dispatch p) = None"
  using assms by (auto simp: plot_dispatch_def)

lemma get_data_array_npy:
  assumes "endswith (filename p) ''.npy''"
  shows "get_data_array rd p
         = (fst (load_npy rd p), snd (load_npy rd p) @ fst (plot_dispatch (fst (load_npy rd p))),
            snd (plot_dispatch (fst (load_npy rd p))))"
  using assms by (simp add: get_data_array_def Let_def split: prod.splits)

lemma get_data_array_cxi:
  assumes "endswith (filename p) ''.cxi''"
  shows "get_data_array rd p
         = (fst (load_cxi rd p), snd (load_cxi rd p) @ fst (plot_dispatch (fst (load_cxi rd p))),
            snd (plot_dispatch (fst (load_cxi rd p))))"
  using assms cxi_not_npy [OF assms] by (simp add: get_data_array_def Let_def split: prod.splits)

text \<open>
  What the loader does with a failing read.  In the \<open>.npy\<close>, \<open>.cxi\<close> and \<open>.h5\<close>
  branches it is caught where it happens: the loader prints its message first, leaves the
  \<open>Plotter\<close> as it was and, when an array was already bound, returns without an
  exception.  In the \<open>.npz\<close> branch it is raised again, with nothing printed.
\<close>

lemma read_failure_handling:
  "(endswith (filename p) ''.npy'' \<and> np_load rd (filename p) = Inl e \<longrightarrow>
      fst (get_data_array rd p) = p
      \<and> (\<exists>out. fst (snd (get_data_array rd p)) = Printed could_not_load # out)
      \<and> (data_array p \<noteq> None \<longrightarrow> snd (snd (get_data_array rd p)) = None))
   \<and> ((endswith (filename p) ''.cxi'' \<or> endswith (filename p) ''.h5'')
       \<and> h5_read rd (filename p) = Inl e \<longrightarrow>
      fst (get_data_array rd p) = p
      \<and> (\<exists>out. fst (snd (get_data_array rd p)) = Printed hdf5_message # out)
      \<and> (data_array p \<noteq> None \<longrightarrow> snd (snd (get_data_array rd p)) = None))
   \<and> (endswith (filename p) ''.npz'' \<and> npz_load rd (filename p) = Inl e \<longrightarrow>
      get_data_array rd p = (p, [], Some e))"
proof (intro conjI impI)
  assume a: "endswith (filename p) ''.npy'' \<and> np_load rd (filename p) = Inl e"
  then have l: "load_npy rd p = (p, [Printed could_not_load])" by (simp add: load_npy_def)
  from a have g: "get_data_array rd p
      = (p, Printed could_not_load # fst (plot_dispatch p), snd (plot_dispatch p))"
    using get_data_array_npy [of p rd] l by simp
  show "fst (get_data_array rd p) = p" using g by simp
  show "\<exists>out. fst (snd (get_data_array rd p)) = Printed could_not_load # out" using g by simp
  show "snd (snd (get_data_array rd p)) = None" if "data_array p \<noteq> None"
    using g plot_dispatch_bound [OF that] by simp
next
  assume a: "(endswith (filename p) ''.cxi'' \<or> endswith (filename p) ''.h5'')
             \<and> h5_read rd (filename p) = Inl e"
  then have l1: "load_cxi rd p = (p, [Printed hdf5_message])"
    and l2: "load_h5 rd p = (p, [Printed hdf5_message])"
    by (simp_all add: load_cxi_def load_h5_def)
  from a have g: "get_data_array rd p
      = (p, Printed hdf5_message # fst (plot_dispatch p), snd (plot_dispatch p))"
    using get_data_array_cxi [of p rd] get_data_array_h5 [of p rd] l1 l2 by auto
  show "fst (get_data_array rd p) = p" using g by simp
  show "\<exists>out. fst (snd (get_data_array rd p)) = Printed hdf5_message # out" using g by simp
  show "snd (snd (get_data_array rd p)) = None" if "data_array p \<noteq> None"
    using g plot_dispatch_bound [OF that] by simp
next
  assume a: "endswith (filename p) ''.npz'' \<and> npz_load rd (filename p) = Inl e"
  then show "get_data_array rd p = (p, [], Some e)"
    using npz_not_others [of "filename p"] by (simp add: get_data_array_def)
qed

lemma read_failure_handling_example:
  "endswith ''scan.npy'' ''.npy'' \<and> np_load (failing_readers :: nat readers) ''scan.npy'' = Inl FileNotFoundError
   \<and> (endswith ''scan.cxi'' ''.cxi'' \<or> endswith ''scan.cxi'' ''.h5'')
   \<and> h5_read (failing_readers :: nat readers) ''scan.cxi'' = Inl FileNotFoundError
   \<and> endswith ''scan.npz'' ''.npz'' \<and> npz_load (failing_readers :: nat readers) ''scan.npz'' = Inl FileNotFoundError
   \<and> data_array ((fresh_plotter ''scan.npy'') \<lparr>data_array := Some sample_4d\<rparr>) \<noteq> None
   \<and> snd (snd (get_data_array failing_readers
                  ((fresh_plotter ''scan.npy'') \<lparr>data_array := Some sample_4d\<rparr>))) = None
   \<and> fst (get_data_array failing_readers
             ((fresh_plotter ''scan.cxi'') \<lparr>data_array := Some sample_4d\<rparr>))
       = (fresh_plotter ''scan.cxi'') \<lparr>data_array := Some sample_4d\<rparr>
   \<and> get_data_array (failing_readers :: nat readers) (fresh_plotter ''scan.npz'')
       = (fresh_plotter ''scan.npz'', [], Some FileNotFoundError)"
  using read_failure_handling [of "(fresh_plotter ''scan.npy'') \<lparr>data_array := Some sample_4d\<rparr>"
                                 failing_readers FileNotFoundError]
    read_failure_handling [of "(fresh_plotter ''scan.cxi'') \<lparr>data_array := Some sample_4d\<rparr>"
                             failing_readers FileNotFoundError]
    read_failure_handling [of "fresh_plotter ''scan.npz'' :: nat plotter"
                             failing_readers FileNotFoundError]
  by (simp add: fresh_plotter_def failing_readers_def endswith_def)

text \<open>
  Claim C2.  On a \<open>Plotter\<close> that has not loaded anything yet and readers that fail,
  an exception leaves the loader in both kinds of branch.  For an \<open>.npz\<close> file the
  handler raises the reader's exception again and no message is printed.  For an
  \<open>.npy\<close> file the message is printed, and then the dispatch reads the attribute
  \<open>data_array\<close>, which was never bound: \<open>AttributeError\<close>.
\<close>

theorem read_failure_propagates:
  "get_data_array (failing_readers :: nat readers) (fresh_plotter ''scan.npz'')
     = (fresh_plotter ''scan.npz'', [], Some FileNotFoundError)
   \<and> get_data_array (failing_readers :: nat readers) (fresh_plotter ''scan.npy'')
       = (fresh_plotter ''scan.npy'',
          [Printed could_not_load, Printed hash_line, Printed ''Loaded data array from scan.npy''],
          Some AttributeError)"
  by (simp add: get_data_array_def load_npy_def plot_dispatch_def failing_readers_def
      fresh_plotter_def endswith_def Let_def)

section \<open>Properties of the configuration writer\<close>


lemma config_lines_acc:
  "config_lines acc kwargs = Inr ls \<Longrightarrow>
     \<exists>new. ls = acc @ new \<and> list_all2 (\<lambda>(k, v) l. yaml_line k v = Inr l) kwargs new"
proof (induction kwargs arbitrary: acc)
  case Nil
  then show ?case by simp
next
  case (Cons kv kwargs)
  obtain k v where kv: "kv = (k, v)" by (cases kv)
  from Cons.prems kv obtain l where l: "yaml_line k v = Inr l"
    and rest: "config_lines (acc @ [l]) kwargs = Inr ls"
    by (auto split: sum.splits)
  from Cons.IH [OF rest] obtain new where "ls = (acc @ [l]) @ new"
    and "list_all2 (\<lambda>(k, v) l. yaml_line k v = Inr l) kwargs new" by blast
  then show ?case using kv l by (intro exI [of _ "l # new"]) simp
qed

lemma create_yaml_file_bad_extension:
  assumes "\<not> endswith fname ''.yaml''" and "\<not> endswith fname ''.yml''"
  shows "files (fst (create_yaml_file os s fname kwargs)) = files s
         \<and> snd (create_yaml_file os s fname kwargs) \<noteq> None"
  using assms
  by (auto simp: create_yaml_file_def Let_def split: sum.splits prod.splits option.splits)

lemma raise_FileError: "raise_named ''FileError'' msg = NameError ''FileError''"
  by (simp add: raise_named_def resolve_global_def module_globals_def builtin_names_def)

lemma create_yaml_file_bad_extension_reached:
  assumes "\<not> endswith fname ''.yaml''" and "\<not> endswith fname ''.yml''"
    and "config_lines [] kwargs = Inr ls"
    and "isdir os (world s) (py_strip (basename fname) fname)"
  shows "create_yaml_file os s fname kwargs = (s, Some (NameError ''FileError''))"
  using assms by (simp add: create_yaml_file_def Let_def raise_FileError)

text \<open>
  Claim C4.  On the destination \<open>config.txt\<close> the writer reaches its \<open>raise\<close> statement,
  where the name \<open>FileError\<close> is bound neither in the module nor in the builtins: what
  is raised is \<open>NameError\<close>, not a format error of the writer's own.  No file is written.
\<close>

theorem create_yaml_file_txt:
  "create_yaml_file flat_os \<lparr>world = [''/''], files = Map.empty\<rparr> ''config.txt'' [(''a'', PInt 1)]
   = (\<lparr>world = [''/''], files = Map.empty\<rparr>, Some (NameError ''FileError''))"
  by (simp add: create_yaml_file_def Let_def raise_FileError flat_os_def yaml_line_def
      basename_def py_strip_def endswith_def)

lemma create_yaml_file_written:
  assumes "endswith fname ''.yaml'' \<or> endswith fname ''.yml''"
    and "config_lines [] kwargs = Inr ls"
    and "isdir os (world s) (py_strip (basename fname) fname)"
    and "open_w os (world s) fname = Inr w'"
  shows "create_yaml_file os s fname kwargs
         = (\<lparr>world = w',
             files = (files s)(fname \<mapsto> concat (map (\<lambda>line. line @ [CHR 0x0A]) ls))\<rparr>, None)"
  using assms by (auto simp: create_yaml_file_def Let_def)

text \<open>
  Claim C6.  The array branch writes \<open>list(v)\<close>, as the tuple branch does, and \<open>list\<close>
  walks the first axis only: a 2 by 2 array is written as the list of the \<open>repr\<close> of its
  two rows, not as its four numbers in one list literal.
\<close>

theorem ndarray_rows_not_flattened:
  "files (fst (create_yaml_file flat_os \<lparr>world = [''/''], files = Map.empty\<rparr> ''c.yml''
                 [(''k'', PArray \<lparr>shape = [2, 2], elems = [1, 2, 3, 4]\<rparr>)]))
     ''c.yml''
   = Some (''k: [array([1, 2]), array([3, 4])]'' @ [CHR 0x0A])
   \<and> files (fst (create_yaml_file flat_os \<lparr>world = [''/''], files = Map.empty\<rparr> ''c.yml''
                   [(''k'', PArray \<lparr>shape = [2, 2], elems = [1, 2, 3, 4]\<rparr>)]))
       ''c.yml''
     \<noteq> Some (''k: [1, 2, 3, 4]'' @ [CHR 0x0A])"
  by code_simp

section \<open>Properties of the metadata extractor\<close>













lemma save_csv_log:
  assumes "csvs s path = Some (Frame df)" and "''scan'' \<in> set (columns df)"
  shows "csvs (fst (save_csv cwd n t (Some path) s)) path
         = Some (Frame (concat_frames (drop_scan n df) t))"
  using assms by (simp add: save_csv_def Let_def split: prod.splits)

lemma extract_metadata_log:
  assumes "csvs s path = Some (Frame df)" and "''scan'' \<in> set (columns df)"
    and "fst (gather_metadata nxs n opened g) = Inr t"
  shows "csvs (fst (extract_metadata nxs cwd n opened g (Some path) s)) path
         = Some (Frame (concat_frames (drop_scan n df) t))"
proof -
  obtain ds out where g: "gather_metadata nxs n opened g = (Inr t, ds, out)"
    using assms(3) by (cases "gather_metadata nxs n opened g") auto
  have "csvs (s\<lparr>screen := screen s @ out\<rparr>) path = Some (Frame df)" using assms(1) by simp
  from save_csv_log [OF this assms(2), of cwd n t] g
  show ?thesis by (auto simp: extract_metadata_def split: prod.splits)
qed

lemma concat_frames_scan_column:
  assumes "''scan'' \<in> set (columns df)"
  shows "''scan'' \<in> set (columns (concat_frames (drop_scan n df) t))"
  using assms by (simp add: concat_frames_def drop_scan_def Let_def)






lemma gather_sample:
  "fst (gather_metadata sample_nxs 7 (Inr sample_h5) None)
   = Inr \<lparr>columns = base_columns,
          rows = [[CInt 7, CNum 1, CNum 2, CNum 3, CArr [4], CArr [5], CArr [6], CArr [7],
                   CArr [8, 9, 10]]]\<rparr>"
  by (simp add: gather_metadata_def required_frame_def extra_columns_def sample_h5_def
      node_def item_def whole_def column_value_def)

lemma gather_sample_b:
  "fst (gather_metadata sample_nxs 7 (Inr sample_h5b) None)
   = Inr \<lparr>columns = base_columns,
          rows = [[CInt 7, CNum 11, CNum 12, CNum 13, CArr [14], CArr [15], CArr [16], CArr [17],
                   CArr [18, 19, 20]]]\<rparr>"
  by (simp add: gather_metadata_def required_frame_def extra_columns_def sample_h5b_def
      node_def item_def whole_def column_value_def)


lemma upsert_twice_example:
  "csvs (fst (extract_metadata sample_nxs ''/home'' 7 (Inr sample_h5b) None (Some ''log.csv'')
                (fst (extract_metadata sample_nxs ''/home'' 7 (Inr sample_h5) None
                        (Some ''log.csv'') sample_env)))) ''log.csv''
   = Some (Frame \<lparr>columns = base_columns,
                  rows = [[CInt 8, CNum 2, CNaN, CNaN, CNaN, CNaN, CNaN, CNaN, CNaN],
                          [CInt 7, CNum 11, CNum 12, CNum 13, CArr [14], CArr [15], CArr [16],
                           CArr [17], CArr [18, 19, 20]]]\<rparr>)"
proof -
  have h1: "csvs sample_env ''log.csv'' = Some (Frame sample_log)" by (simp add: sample_env_def)
  have h2: "''scan'' \<in> set (columns sample_log)" by (simp add: sample_log_def)
  let ?df1 = "concat_frames (drop_scan 7 sample_log)
                \<lparr>columns = base_columns,
                 rows = [[CInt 7, CNum 1, CNum 2, CNum 3, CArr [4], CArr [5], CArr [6], CArr [7],
                          CArr [8, 9, 10]]]\<rparr>"
  have l1: "csvs (fst (extract_metadata sample_nxs ''/home'' 7 (Inr sample_h5) None
                        (Some ''log.csv'') sample_env)) ''log.csv'' = Some (Frame ?df1)"
    by (rule extract_metadata_log [OF h1 h2 gather_sample])
  have sc1: "''scan'' \<in> set (columns ?df1)" by (rule concat_frames_scan_column [OF h2])
  have d1: "?df1 = \<lparr>columns = base_columns,
                  rows = [[CInt 8, CNum 2, CNaN, CNaN, CNaN, CNaN, CNaN, CNaN, CNaN],
                          [CInt 7, CNum 1, CNum 2, CNum 3, CArr [4], CArr [5], CArr [6],
                           CArr [7], CArr [8, 9, 10]]]\<rparr>"
    by (simp add: concat_frames_def drop_scan_def sample_log_def base_columns_def Let_def
        cell_at_def col_index_def cell_is_scan_def reindex_def)
  have d2: "concat_frames (drop_scan 7 ?df1)
              \<lparr>columns = base_columns,
               rows = [[CInt 7, CNum 11, CNum 12, CNum 13, CArr [14], CArr [15], CArr [16],
                        CArr [17], CArr [18, 19, 20]]]\<rparr>
            = \<lparr>columns = base_columns,
               rows = [[CInt 8, CNum 2, CNaN, CNaN, CNaN, CNaN, CNaN, CNaN, CNaN],
                       [CInt 7, CNum 11, CNum 12, CNum 13, CArr [14], CArr [15], CArr [16],
                        CArr [17], CArr [18, 19, 20]]]\<rparr>"
    unfolding d1
    by (simp add: concat_frames_def drop_scan_def base_columns_def Let_def
        cell_at_def col_index_def cell_is_scan_def reindex_def)
  from extract_metadata_log [OF l1 sc1 gather_sample_b, of "''/home''"] d2
  show ?thesis by simp
qed

lemma mirror_all_beamline:
  "beamline (fst (mirror_all ds items)) = beamline ds
   \<and> path_to_nxs_data (fst (mirror_all ds items)) = path_to_nxs_data ds"
proof (induction items arbitrary: ds)
  case Nil
  then show ?case by simp
next
  case (Cons cv items)
  obtain c v where "cv = (c, v)" by (cases cv)
  then show ?case using Cons.IH by (cases v) simp_all
qed

lemma mirror_extra_beamline:
  "beamline (fst (mirror_extra f t ds)) = beamline ds"
proof -
  have "\<exists>items. fst (mirror_extra f t ds) = fst (mirror_all ds items)"
    unfolding mirror_extra_def
    by (auto split: prod.splits option.splits simp del: mirror_all.simps) (metis fst_conv)+
  then show ?thesis using mirror_all_beamline by auto
qed

lemma mirror_required_beamline:
  "beamline (fst (mirror_required f ds)) = beamline ds"
  unfolding mirror_required_def by (rule mirror_all_beamline [THEN conjunct1])

lemma dataset_part_not_identical:
  assumes "beamline ds = Some b" and "\<not> py_is b SIXS_2019_literal"
  shows "fst (dataset_part nxs_read f tilt temp_df ds) = temp_df"
proof -
  obtain ds1 e1 where m1: "mirror_required f ds = (ds1, e1)" by (cases "mirror_required f ds")
  obtain ds2 e2 where m2: "mirror_extra f tilt ds1 = (ds2, e2)" by (cases "mirror_extra f tilt ds1")
  have "beamline ds1 = Some b" using mirror_required_beamline [of f ds] m1 assms(1) by simp
  then have "beamline ds2 = Some b" using mirror_extra_beamline [of f tilt ds1] m2 by simp
  then show ?thesis using m1 m2 assms(2)
    by (cases e1; cases e2) (simp_all add: dataset_part_def)
qed

text \<open>
  Claim C9.  A \<open>Dataset\<close> whose beamline is a string equal to \<open>"SIXS_2019"\<close> but not the
  interned literal itself (a string built or read at run time) passes the equality test
  and fails the source's \<open>is\<close> test: the frame leaves the \<open>Dataset\<close> block as it entered,
  with no motor position, integration time or step count, and the beamline reader is
  not called.
\<close>

theorem sixs_block_skipped_for_equal_string:
  "py_eq \<lparr>oid = 1, chars = ''SIXS_2019''\<rparr> SIXS_2019_literal
   \<and> fst (dataset_part nxs_read f tilt temp_df
            (ds\<lparr>beamline := Some \<lparr>oid = 1, chars = ''SIXS_2019''\<rparr>\<rparr>)) = temp_df"
proof -
  have "\<not> py_is \<lparr>oid = 1, chars = ''SIXS_2019''\<rparr> SIXS_2019_literal"
    by (simp add: py_is_def SIXS_2019_literal_def)
  then have "fst (dataset_part nxs_read f tilt temp_df
                    (ds\<lparr>beamline := Some \<lparr>oid = 1, chars = ''SIXS_2019''\<rparr>\<rparr>)) = temp_df"
    by (intro dataset_part_not_identical [where b = "\<lparr>oid = 1, chars = ''SIXS_2019''\<rparr>"]) simp_all
  then show ?thesis by (simp add: py_eq_def SIXS_2019_literal_def)
qed

lemma sixs_block_runs_for_literal:
  "columns (fst (dataset_part sample_nxs sample_h5 None \<lparr>columns = [''scan''], rows = [[CInt 7]]\<rparr>
                   \<lparr>beamline = Some SIXS_2019_literal, path_to_nxs_data = Some ''scan.nxs'',
                    meta = Map.empty\<rparr>))
   = [''scan'', ''x'', ''y'', ''z'', ''mu'', ''delta'', ''omega'', ''gamma'', ''gamma-mu'',
      ''step_size'', ''integration_time'', ''steps'']"
  by (simp add: dataset_part_def mirror_required_def mirror_extra_def sample_h5_def node_def
      whole_def py_is_def sample_nxs_def sixs_columns_def attr_def first_of_def last_of_def
      both_def set_col_def)

section \<open>What the written file keeps of a string\<close>

text \<open>
  Claim C5.  The string branch writes the value between double quotes and escapes
  nothing (inside a list a string goes through \<open>repr\<close> and is escaped).  For the one
  argument \<open>a\<close> holding \<open>x\<close>, a double quote, a line break, \<open>b: \<close>, a
  double quote and \<open>y\<close>, the file is, character for character, the file written for the two
  arguments \<open>a = 'x'\<close> and \<open>b = 'y'\<close>: whatever reads the file back cannot give the
  value of \<open>a\<close> in both cases.
\<close>

theorem unescaped_string_same_file:
  "files (fst (create_yaml_file flat_os \<lparr>world = [''/''], files = Map.empty\<rparr> ''c.yml''
                 [(''a'', PStr (''x'' @ [CHR 0x22, CHR 0x0A] @ ''b: '' @ [CHR 0x22] @ ''y''))]))
     ''c.yml''
   = Some (''a: '' @ [CHR 0x22] @ ''x'' @ [CHR 0x22, CHR 0x0A]
           @ ''b: '' @ [CHR 0x22] @ ''y'' @ [CHR 0x22, CHR 0x0A])
   \<and> files (fst (create_yaml_file flat_os \<lparr>world = [''/''], files = Map.empty\<rparr> ''c.yml''
                   [(''a'', PStr ''x''), (''b'', PStr ''y'')]))
       ''c.yml''
     = Some (''a: '' @ [CHR 0x22] @ ''x'' @ [CHR 0x22, CHR 0x0A]
             @ ''b: '' @ [CHR 0x22] @ ''y'' @ [CHR 0x22, CHR 0x0A])"
  by (simp add: create_yaml_file_def Let_def flat_os_def yaml_line_def
      basename_def py_strip_def endswith_def)

end
